theory Spec2Isabelle
  imports Main "HOL-Library.Sublist"
begin

section \<open>Python primitives used by bot.py\<close>

text \<open>
  Strings are lists of one-byte characters: a text of the source is taken to hold code
  points below 256 only.

  Exceptions that the modelled statements can raise. \<open>NameError\<close> stands for Python's
  \<open>UnboundLocalError\<close> as well (its subclass); \<open>TransportError\<close> stands for whatever
  aiohttp or the chat transport raises on a failed call.
\<close>

datatype exn = IndexError | KeyError | ValueError | NameError | AttributeError | TransportError

definition bind_exn :: "exn + 'a \<Rightarrow> ('a \<Rightarrow> exn + 'b) \<Rightarrow> exn + 'b" where
  "bind_exn m f = (case m of Inl e \<Rightarrow> Inl e | Inr x \<Rightarrow> f x)"

text \<open>\<^verbatim>\<open>xs[i]\<close>: negative indices count from the end, out of range raises.\<close>

definition py_index :: "'a list \<Rightarrow> int \<Rightarrow> exn + 'a" where
  "py_index xs i =
     (if i < 0 then
        (if nat (- i) \<le> length xs then Inr (xs ! (length xs - nat (- i))) else Inl IndexError)
      else
        (if nat i < length xs then Inr (xs ! nat i) else Inl IndexError))"

text \<open>\<^verbatim>\<open>xs[start:stop]\<close> and \<^verbatim>\<open>xs[start:]\<close>: indices are normalised and clamped, never raise.\<close>

definition clamp_index :: "nat \<Rightarrow> int \<Rightarrow> nat" where
  "clamp_index n i = (if i < 0 then nat (max 0 (int n + i)) else min n (nat i))"

definition py_slice :: "'a list \<Rightarrow> int \<Rightarrow> int \<Rightarrow> 'a list" where
  "py_slice xs start stop =
     (let a = clamp_index (length xs) start; b = clamp_index (length xs) stop
      in take (b - a) (drop a xs))"

definition py_slice_from :: "'a list \<Rightarrow> int \<Rightarrow> 'a list" where
  "py_slice_from xs start = drop (clamp_index (length xs) start) xs"

text \<open>\<^verbatim>\<open>s.startswith(p)\<close> and \<^verbatim>\<open>sub in s\<close>.\<close>

definition startswith :: "string \<Rightarrow> string \<Rightarrow> bool" where
  "startswith s p = prefix p s"

fun contains :: "string \<Rightarrow> string \<Rightarrow> bool" where
  "contains [] sub = (sub = [])"
| "contains (c # cs) sub = (prefix sub (c # cs) \<or> contains cs sub)"

text \<open>\<^verbatim>\<open>s.split(sep)\<close> for a one-character separator: never empty, keeps empty fields.\<close>

fun split_on :: "char \<Rightarrow> string \<Rightarrow> string list" where
  "split_on sep [] = [[]]"
| "split_on sep (c # cs) =
     (if c = sep then [] # split_on sep cs
      else (c # hd (split_on sep cs)) # tl (split_on sep cs))"

text \<open>\<^verbatim>\<open>s.split(sep, 1)\<close>: at most one split, at the first separator.\<close>

definition split_once :: "char \<Rightarrow> string \<Rightarrow> string list" where
  "split_once sep s =
     (if sep \<in> set s then [takeWhile (\<lambda>c. c \<noteq> sep) s, tl (dropWhile (\<lambda>c. c \<noteq> sep) s)]
      else [s])"

text \<open>\<^verbatim>\<open>sep.join(xs)\<close>.\<close>

fun join :: "string \<Rightarrow> string list \<Rightarrow> string" where
  "join sep [] = []"
| "join sep [x] = x"
| "join sep (x # y # ys) = x @ sep @ join sep (y # ys)"

text \<open>
  Whitespace as \<^verbatim>\<open>str.isspace\<close> sees it below code point 256: tab to carriage return,
  the four separators \<open>0x1C\<close> .. \<open>0x1F\<close>, the space, \<open>0x85\<close> and \<open>0xA0\<close>.
  \<^verbatim>\<open>s.strip()\<close> and \<^verbatim>\<open>s.split()\<close> (runs of whitespace separate, no empty words)
  use it.
\<close>

definition py_isspace :: "char \<Rightarrow> bool" where
  "py_isspace c = ((of_char c :: nat) \<in> {9, 10, 11, 12, 13, 28, 29, 30, 31, 32, 133, 160})"

definition strip :: "string \<Rightarrow> string" where
  "strip s = rev (dropWhile py_isspace (rev (dropWhile py_isspace s)))"

fun split_ws_acc :: "string \<Rightarrow> string \<Rightarrow> string list" where
  "split_ws_acc w [] = (if w = [] then [] else [rev w])"
| "split_ws_acc w (c # cs) =
     (if py_isspace c then (if w = [] then split_ws_acc [] cs else rev w # split_ws_acc [] cs)
      else split_ws_acc (c # w) cs)"

definition split_ws :: "string \<Rightarrow> string list" where
  "split_ws s = split_ws_acc [] s"

text \<open>
  \<^verbatim>\<open>int(s)\<close> for a string, base 10. CPython first maps every whitespace character
  above code point 127 to a space (below 256 these are \<open>0x85\<close> and \<open>0xA0\<close>) and then
  reads: whitespace of the C locale (tab to carriage return, and the space; not \<open>0x1C\<close> ..
  \<open>0x1F\<close>), one optional sign, decimal digits in groups separated by single underscores,
  whitespace again, and the end of the string. Anything else raises ValueError. Below code
  point 256 the only decimal digits are \<^verbatim>\<open>0\<close> .. \<^verbatim>\<open>9\<close>. (The interpreter's optional limit
  on the number of digits, 4300 by default since Python 3.11, is not modelled.)
\<close>

definition int_space :: "char \<Rightarrow> bool" where
  "int_space c = ((of_char c :: nat) \<in> {9, 10, 11, 12, 13, 32, 133, 160})"

definition is_digit :: "char \<Rightarrow> bool" where
  "is_digit c = (48 \<le> (of_char c :: nat) \<and> (of_char c :: nat) \<le> 57)"

definition digit_val :: "char \<Rightarrow> nat" where
  "digit_val c = of_char c - 48"

definition nat_of_digits :: "string \<Rightarrow> nat" where
  "nat_of_digits ds = foldl (\<lambda>acc c. 10 * acc + digit_val c) 0 ds"

definition parse_digits :: "string \<Rightarrow> exn + nat" where
  "parse_digits ds =
     (let groups = split_on CHR ''_'' ds
      in if list_all (\<lambda>g. g \<noteq> [] \<and> list_all is_digit g) groups
         then Inr (nat_of_digits (concat groups)) else Inl ValueError)"

definition py_int :: "string \<Rightarrow> exn + int" where
  "py_int s =
     (case rev (dropWhile int_space (rev (dropWhile int_space s))) of
        [] \<Rightarrow> Inl ValueError
      | c # cs \<Rightarrow>
          if c = CHR ''-'' then bind_exn (parse_digits cs) (\<lambda>n. Inr (- int n))
          else if c = CHR ''+'' then bind_exn (parse_digits cs) (\<lambda>n. Inr (int n))
          else bind_exn (parse_digits (c # cs)) (\<lambda>n. Inr (int n)))"

text \<open>\<^verbatim>\<open>str(n)\<close> for an int, as the f-strings of the keyboards format a page number.\<close>

definition digit_char :: "nat \<Rightarrow> char" where
  "digit_char d = char_of (48 + d)"

function str_nat :: "nat \<Rightarrow> string" where
  "str_nat n = (if n < 10 then [digit_char n] else str_nat (n div 10) @ [digit_char (n mod 10)])"
  by pat_completeness auto
termination
  by (relation "measure id") auto

declare str_nat.simps [simp del]

definition str_int :: "int \<Rightarrow> string" where
  "str_int i = (if i < 0 then CHR ''-'' # str_nat (nat (- i)) else str_nat (nat i))"

text \<open>Truthiness of an optional string: \<^verbatim>\<open>None\<close> and \<^verbatim>\<open>""\<close> are false.\<close>

definition truthy :: "string option \<Rightarrow> bool" where
  "truthy v = (case v of None \<Rightarrow> False | Some s \<Rightarrow> s \<noteq> [])"

section \<open>Catalog payloads\<close>

text \<open>
  The catalog API's JSON, typed: an entry of \<^verbatim>\<open>downloadUrl\<close> or \<^verbatim>\<open>image\<close> is a dict
  whose \<^verbatim>\<open>url\<close> key may be missing (\<^verbatim>\<open>.get("url")\<close>); a missing list is the empty list.
\<close>

record media_link =
  ml_quality :: string
  ml_url :: "string option"

record song =
  s_id :: string
  s_name :: "string option"
  s_primary_artists :: "string option list"
  s_downloadUrl :: "media_link list"
  s_image :: "media_link list"
  s_duration :: int

definition or_unknown :: "string option \<Rightarrow> string" where
  "or_unknown v = (case v of None \<Rightarrow> ''Unknown'' | Some s \<Rightarrow> s)"

definition artist_names_of :: "string option list \<Rightarrow> string" where
  "artist_names_of primary_artists =
     (if primary_artists \<noteq> [] then join '', '' (map or_unknown primary_artists) else ''Unknown'')"

section \<open>Quality tiers and variant selection\<close>

record quality_option =
  q_quality :: string
  q_desc :: string
  q_index :: nat

definition QUALITY_OPTIONS :: "string \<Rightarrow> quality_option option" where
  "QUALITY_OPTIONS k =
     (if k = ''high'' then Some \<lparr>q_quality = ''320kbps'', q_desc = ''High Quality (Slow)'', q_index = 4\<rparr>
      else if k = ''medium'' then Some \<lparr>q_quality = ''160kbps'', q_desc = ''Balanced (Medium)'', q_index = 3\<rparr>
      else if k = ''low'' then Some \<lparr>q_quality = ''96kbps'', q_desc = ''Fast (Low)'', q_index = 2\<rparr>
      else None)"

text \<open>\<^verbatim>\<open>QUALITY_OPTIONS[quality]["index"]\<close>: KeyError for a key that is not a tier.\<close>

definition quality_index_of :: "string \<Rightarrow> exn + nat" where
  "quality_index_of quality =
     (case QUALITY_OPTIONS quality of None \<Rightarrow> Inl KeyError | Some q \<Rightarrow> Inr (q_index q))"

text \<open>
  Lines 1019-1023 of \<^verbatim>\<open>download_song\<close>, repeated at 1150-1154 of \<^verbatim>\<open>download_all_songs\<close>:
  \<^verbatim>\<open>
  download_url = None
  if quality_index < len(download_urls):
      download_url = download_urls[quality_index].get("url")
  elif download_urls:
      download_url = download_urls[-1].get("url")
  \<close>
  The two subscripts are modelled with \<open>py_index\<close>, so an out-of-range read would show
  as \<open>Inl IndexError\<close>.
\<close>

definition select_download_url :: "nat \<Rightarrow> media_link list \<Rightarrow> exn + string option" where
  "select_download_url quality_index download_urls =
     (if quality_index < length download_urls then
        bind_exn (py_index download_urls (int quality_index)) (\<lambda>v. Inr (ml_url v))
      else if download_urls \<noteq> [] then
        bind_exn (py_index download_urls (- 1)) (\<lambda>v. Inr (ml_url v))
      else Inr None)"


text \<open>\<^verbatim>\<open>images[-1].get("url") if images else None\<close>.\<close>

definition thumbnail_url_of :: "media_link list \<Rightarrow> string option" where
  "thumbnail_url_of images = (if images \<noteq> [] then ml_url (last images) else None)"

section \<open>Session store and usage counters\<close>

record history_entry =
  h_name :: string
  h_artist :: string
  h_id :: string

record user_data =
  ud_quality :: string
  ud_history :: "history_entry list"
  ud_downloads :: int
  ud_searches :: int

record stats =
  st_downloads :: int
  st_searches :: int
  st_last_active :: "string option"

record last_search_rec =
  ls_query :: string
  ls_type :: string
  ls_page :: int

text \<open>The keys of \<^verbatim>\<open>context.user_data\<close> that the handlers write; a missing key is \<open>None\<close>.\<close>

record ctx_data =
  cx_last_search :: "last_search_rec option"
  cx_search_mode :: "string option"
  cx_admin_mode :: "string option"
  cx_broadcast_message :: "string option"

text \<open>
  The process-wide dictionaries \<^verbatim>\<open>user_data_store\<close> and \<^verbatim>\<open>user_stats\<close>, and the
  transport's per-user \<^verbatim>\<open>context.user_data\<close> (an empty dict for a user never seen).
  \<^verbatim>\<open>user_stats\<close> is iterated by the admin views, so it is kept as the list of its items
  in insertion order, each key once.
\<close>

record bot_state =
  user_data_store :: "int \<rightharpoonup> user_data"
  user_stats :: "(int \<times> stats) list"
  context_user_data :: "int \<Rightarrow> ctx_data"

text \<open>\<^verbatim>\<open>d[k] = v\<close> on a dict kept as its item list: in place for a known key, else appended.\<close>

fun dict_set :: "'k \<Rightarrow> 'v \<Rightarrow> ('k \<times> 'v) list \<Rightarrow> ('k \<times> 'v) list" where
  "dict_set k v [] = [(k, v)]"
| "dict_set k v ((k', v') # kvs) =
     (if k' = k then (k, v) # kvs else (k', v') # dict_set k v kvs)"

definition empty_ctx :: ctx_data where
  "empty_ctx = \<lparr>cx_last_search = None, cx_search_mode = None, cx_admin_mode = None,
                 cx_broadcast_message = None\<rparr>"

definition initial_state :: bot_state where
  "initial_state = \<lparr>user_data_store = Map.empty, user_stats = [],
                     context_user_data = (\<lambda>_. empty_ctx)\<rparr>"

definition default_user_data :: user_data where
  "default_user_data = \<lparr>ud_quality = ''medium'', ud_history = [], ud_downloads = 0, ud_searches = 0\<rparr>"

definition get_user_data :: "int \<Rightarrow> bot_state \<Rightarrow> user_data \<times> bot_state" where
  "get_user_data user_id st =
     (case user_data_store st user_id of
        None \<Rightarrow> (default_user_data,
                 st\<lparr>user_data_store := (user_data_store st)(user_id \<mapsto> default_user_data)\<rparr>)
      | Some ud \<Rightarrow> (ud, st))"

text \<open>
  A write through the dict that \<^verbatim>\<open>get_user_data\<close> returned: it is the object held by
  the store, so the store's entry changes.
\<close>

definition modify_user_data :: "int \<Rightarrow> (user_data \<Rightarrow> user_data) \<Rightarrow> bot_state \<Rightarrow> bot_state" where
  "modify_user_data user_id f st =
     (case user_data_store st user_id of
        None \<Rightarrow> st
      | Some ud \<Rightarrow> st\<lparr>user_data_store := (user_data_store st)(user_id \<mapsto> f ud)\<rparr>)"

definition update_user_stats :: "int \<Rightarrow> string \<Rightarrow> string \<Rightarrow> bot_state \<Rightarrow> bot_state" where
  "update_user_stats user_id action now st =
     (let s0 = (case map_of (user_stats st) user_id of
                  None \<Rightarrow> \<lparr>st_downloads = 0, st_searches = 0, st_last_active = None\<rparr>
                | Some s \<Rightarrow> s);
          s1 = (if action = ''download'' then s0\<lparr>st_downloads := st_downloads s0 + 1\<rparr>
                else if action = ''search'' then s0\<lparr>st_searches := st_searches s0 + 1\<rparr>
                else s0)
      in st\<lparr>user_stats := dict_set user_id (s1\<lparr>st_last_active := Some now\<rparr>) (user_stats st)\<rparr>)"

text \<open>
  Lines 1074-1083 of \<^verbatim>\<open>download_song\<close>:
  \<^verbatim>\<open>
  user_data["downloads"] = user_data.get("downloads", 0) + 1
  user_data["history"].append({"name": name, "artist": artist_names, "id": song_id})
  if len(user_data["history"]) > 50:
      user_data["history"] = user_data["history"][-50:]
  \<close>
\<close>

definition record_download :: "history_entry \<Rightarrow> user_data \<Rightarrow> user_data" where
  "record_download entry ud =
     (let h = ud_history ud @ [entry]
      in ud\<lparr>ud_downloads := ud_downloads ud + 1,
            ud_history := (if length h > 50 then py_slice_from h (- 50) else h)\<rparr>)"

section \<open>The outside world\<close>

record http_response =
  r_status :: nat
  r_body :: "exn + string"

record audio_msg =
  a_audio :: string
  a_thumbnail :: "string option"
  a_title :: string
  a_performer :: string
  a_duration :: int

record collection =
  c_id :: string
  c_name :: "string option"
  c_songCount :: int
  c_songs :: "song list"
  c_image :: "media_link list"

text \<open>
  An entry of a search result, of an artist's songs or albums, or of the suggestions, as
  \<^verbatim>\<open>create_list_keyboard\<close> reads it: \<open>i_artists\<close> is \<open>None\<close> where \<^verbatim>\<open>item.get("artists")\<close>
  is false, and otherwise the names in its \<^verbatim>\<open>primary\<close> list (\<open>[None]\<close> for a missing
  \<^verbatim>\<open>primary\<close> key, the default \<^verbatim>\<open>[{}]\<close>).
\<close>

record item =
  i_id :: string
  i_artists :: "string option list option"

record listing =
  l_results :: "item list"
  l_total :: int

text \<open>
  The texts that the two retrieval pipelines send, by the line that writes them (emoji and
  markup left out): \<^verbatim>\<open>"Downloading..."\<close> (995), \<^verbatim>\<open>"Preparing your download..."\<close> (998),
  \<^verbatim>\<open>"Failed to fetch song details."\<close> (1005), \<^verbatim>\<open>"Download URL not available."\<close> (1026),
  frame \<open>k\<close> of the animation with \<^verbatim>\<open>"Downloading {name}..."\<close> (1033),
  \<^verbatim>\<open>"Failed to download song."\<close> (1087), \<^verbatim>\<open>"Download failed. Please try again."\<close>
  (1091, 1093), \<^verbatim>\<open>"Starting batch download..."\<close> (1101), \<^verbatim>\<open>"Failed to fetch songs."\<close>
  (1110), \<^verbatim>\<open>"No songs found."\<close> (1116),
  \<^verbatim>\<open>"Downloading {total_songs} songs... Progress: 0/{total_songs}"\<close> (1120),
  \<^verbatim>\<open>"... Progress: {idx}/{total_songs} {name}"\<close> (1139),
  \<^verbatim>\<open>"Download complete! Successfully sent {total_songs} songs."\<close> (1199) and
  \<^verbatim>\<open>"Batch download failed."\<close> (1204).
\<close>

datatype notice =
    Downloading
  | PreparingDownload
  | FetchDetailsFailed
  | UrlNotAvailable
  | DownloadingFrame nat string
  | FailedToDownload
  | DownloadFailed
  | StartingBatch
  | FetchSongsFailed
  | NoSongsFound
  | BatchStatus nat
  | BatchProgress nat nat string
  | DownloadComplete nat
  | BatchFailed

text \<open>
  The calls of the chat transport in the two pipelines: \<^verbatim>\<open>callback_query.answer(text)\<close>,
  \<^verbatim>\<open>callback_query.message.reply_text(text)\<close>, \<^verbatim>\<open>edit_text(text)\<close> and \<^verbatim>\<open>delete()\<close> on
  the message the pipeline sent before (\<^verbatim>\<open>loading_msg\<close>, \<^verbatim>\<open>status_msg\<close>),
  \<^verbatim>\<open>send_chat_action(action=ChatAction.UPLOAD_AUDIO)\<close> including the read of that
  attribute, and \<^verbatim>\<open>send_audio\<close>.
\<close>

datatype chat_call =
    Answer notice
  | Reply notice
  | Edit notice
  | Delete
  | SendChatAction_UPLOAD_AUDIO
  | SendAudio audio_msg

text \<open>
  The configured \<^verbatim>\<open>ADMIN_IDS\<close>, and what the catalog, the binary host, the chat
  transport, the chat library, \<^verbatim>\<open>urllib\<close> and the clock answer. A catalog call is \<open>None\<close>
  where \<^verbatim>\<open>fetch_api\<close> returns \<^verbatim>\<open>None\<close> (transport failure, non-200, or \<^verbatim>\<open>success\<close>
  false) and the payload's \<^verbatim>\<open>data\<close> otherwise. An HTTP GET raises or gives a response;
  reading its body may raise as well. Every call of the chat transport in the pipelines is
  accepted or raises. \<open>e_urlparse_path url\<close> is \<^verbatim>\<open>urlparse(url).path\<close>, which may raise
  ValueError.
\<close>

record env =
  e_admin_ids :: "int list"
  e_now :: string
  e_get_song_details :: "string \<Rightarrow> song option"
  e_get_album_details :: "string \<Rightarrow> collection option"
  e_get_playlist_details :: "string \<Rightarrow> int \<Rightarrow> int \<Rightarrow> collection option"
  e_search :: "string \<Rightarrow> string \<Rightarrow> int \<Rightarrow> int \<Rightarrow> listing option"
  e_get_artist_songs :: "string \<Rightarrow> int \<Rightarrow> int \<Rightarrow> listing option"
  e_get_artist_albums :: "string \<Rightarrow> int \<Rightarrow> int \<Rightarrow> listing option"
  e_get_song_suggestions :: "string \<Rightarrow> int \<Rightarrow> item list option"
  e_http_get :: "string \<Rightarrow> exn + http_response"
  e_chat :: "chat_call \<Rightarrow> exn + unit"
  e_urlparse_path :: "string \<Rightarrow> exn + string"

section \<open>Runs of a pipeline\<close>

text \<open>
  What a run leaves behind, in order: the calls of the chat transport it issued (accepted
  or not), the URLs it requested, and the lines it wrote with \<^verbatim>\<open>logger.error\<close>
  (\<^verbatim>\<open>"Download error: {e}"\<close>, \<^verbatim>\<open>"Error downloading song {idx}: {e}"\<close>,
  \<^verbatim>\<open>"Batch download error: {e}"\<close>).
\<close>

datatype log_entry = DownloadError exn | ItemError nat exn | BatchError exn

datatype event = Chat chat_call | Get string | Log log_entry

text \<open>
  A block of statements, run from a state: it ends normally with a value or raises, has
  issued its events, and leaves a state. \<open>io_bind\<close> is sequencing (an exception skips what
  follows), \<open>io_try\<close> runs a block and hands over how it ended, and \<open>try_except\<close> is
  \<^verbatim>\<open>try: m except Exception as e: h e\<close>.
\<close>

type_synonym 'a io = "bot_state \<Rightarrow> (exn + 'a) \<times> event list \<times> bot_state"

definition io_return :: "'a \<Rightarrow> 'a io" where
  "io_return x st = (Inr x, [], st)"

definition io_lift :: "exn + 'a \<Rightarrow> 'a io" where
  "io_lift r st = (r, [], st)"

definition io_bind :: "'a io \<Rightarrow> ('a \<Rightarrow> 'b io) \<Rightarrow> 'b io" where
  "io_bind m k st =
     (case m st of
        (Inl e, t, st1) \<Rightarrow> (Inl e, t, st1)
      | (Inr x, t, st1) \<Rightarrow> (case k x st1 of (r, t', st2) \<Rightarrow> (r, t @ t', st2)))"

definition io_try :: "'a io \<Rightarrow> (exn + 'a) io" where
  "io_try m st = (case m st of (r, t, st1) \<Rightarrow> (Inr r, t, st1))"

definition try_except :: "'a io \<Rightarrow> (exn \<Rightarrow> 'a io) \<Rightarrow> 'a io" where
  "try_except m h =
     io_bind (io_try m) (\<lambda>r. case r of Inl e \<Rightarrow> h e | Inr x \<Rightarrow> io_return x)"

definition chat :: "env \<Rightarrow> chat_call \<Rightarrow> unit io" where
  "chat env c st = (e_chat env c, [Chat c], st)"

definition http_get :: "env \<Rightarrow> string \<Rightarrow> http_response io" where
  "http_get env url st = (e_http_get env url, [Get url], st)"

definition io_log :: "log_entry \<Rightarrow> unit io" where
  "io_log l st = (Inr (), [Log l], st)"

definition io_modify :: "(bot_state \<Rightarrow> bot_state) \<Rightarrow> unit io" where
  "io_modify f st = (Inr (), [], f st)"

definition io_get_user_data :: "int \<Rightarrow> user_data io" where
  "io_get_user_data user_id st = (case get_user_data user_id st of (ud, st') \<Rightarrow> (Inr ud, [], st'))"

definition raised :: "(exn + 'a) \<times> event list \<times> bot_state \<Rightarrow> exn option" where
  "raised r = (case fst r of Inl e \<Rightarrow> Some e | Inr _ \<Rightarrow> None)"

definition events :: "(exn + 'a) \<times> event list \<times> bot_state \<Rightarrow> event list" where
  "events r = fst (snd r)"

definition state_after :: "(exn + 'a) \<times> event list \<times> bot_state \<Rightarrow> bot_state" where
  "state_after r = snd (snd r)"

text \<open>The URLs requested and the audio messages handed to the transport, in order.\<close>

fun requests :: "event list \<Rightarrow> string list" where
  "requests [] = []"
| "requests (Get url # t) = url # requests t"
| "requests (_ # t) = requests t"

fun audios :: "event list \<Rightarrow> audio_msg list" where
  "audios [] = []"
| "audios (Chat (SendAudio msg) # t) = msg # audios t"
| "audios (_ # t) = audios t"

text \<open>The audio messages that the transport accepted.\<close>

definition sent_audios :: "env \<Rightarrow> event list \<Rightarrow> audio_msg list" where
  "sent_audios env t = filter (\<lambda>msg. e_chat env (SendAudio msg) = Inr ()) (audios t)"

section \<open>Retrieval pipeline\<close>

text \<open>
  Lines 1046-1056 (and 1160-1173): GET the audio; on status 200 read it and, when there is
  a thumbnail URL, GET the thumbnail in the same session and read it on status 200. The
  value is \<open>None\<close> for a non-200 audio response and the two bodies otherwise; nothing here
  catches an exception of either GET or read.
\<close>

definition fetch_media :: "env \<Rightarrow> string \<Rightarrow> string option \<Rightarrow> (string \<times> string option) option io" where
  "fetch_media env download_url thumbnail_url =
     io_bind (http_get env download_url) (\<lambda>resp.
       if r_status resp = 200 then
         io_bind (io_lift (r_body resp)) (\<lambda>audio_data.
           io_bind
             (case thumbnail_url of
                None \<Rightarrow> io_return None
              | Some t \<Rightarrow>
                  if t = [] then io_return None
                  else
                    io_bind (http_get env t) (\<lambda>thumb_resp.
                      if r_status thumb_resp = 200 then
                        io_bind (io_lift (r_body thumb_resp)) (\<lambda>d. io_return (Some d))
                      else io_return None))
             (\<lambda>thumb_data. io_return (Some (audio_data, thumb_data))))
       else io_return None)"

text \<open>\<^verbatim>\<open>thumbnail=thumb_data if thumb_data else None\<close>.\<close>

definition thumb_arg :: "string option \<Rightarrow> string option" where
  "thumb_arg thumb_data = (if truthy thumb_data then thumb_data else None)"

text \<open>
  The animation of lines 1030-1036: three rounds over the ten frames, each edit in its own
  \<^verbatim>\<open>try\<close> whose bare \<^verbatim>\<open>except\<close> ends the round. It cannot raise.
\<close>

fun animate_round :: "env \<Rightarrow> string \<Rightarrow> nat list \<Rightarrow> event list" where
  "animate_round env name [] = []"
| "animate_round env name (k # ks) =
     Chat (Edit (DownloadingFrame k name))
     # (case e_chat env (Edit (DownloadingFrame k name)) of
          Inl _ \<Rightarrow> []
        | Inr _ \<Rightarrow> animate_round env name ks)"

definition animate :: "env \<Rightarrow> string \<Rightarrow> unit io" where
  "animate env name st = (Inr (), concat (replicate 3 (animate_round env name [0..<10])), st)"

text \<open>
  The \<^verbatim>\<open>except Exception\<close> of \<^verbatim>\<open>download_song\<close> (lines 1088-1094): the error is logged,
  then \<^verbatim>\<open>loading_msg.edit_text\<close> is tried and, if that raises, \<^verbatim>\<open>reply_text\<close> is called
  outside any \<^verbatim>\<open>try\<close>. Where the exception came before \<^verbatim>\<open>loading_msg\<close> was assigned
  (line 998), reading it raises UnboundLocalError, which the bare \<^verbatim>\<open>except\<close> catches
  as well; no edit is issued then.
\<close>

definition download_failed :: "env \<Rightarrow> bool \<Rightarrow> exn \<Rightarrow> unit io" where
  "download_failed env loading_msg_bound e =
     io_bind (io_log (DownloadError e)) (\<lambda>_.
       try_except
         (if loading_msg_bound then chat env (Edit DownloadFailed) else io_lift (Inl NameError))
         (\<lambda>_. chat env (Reply DownloadFailed)))"

text \<open>
  Lines 1029-1087 of \<^verbatim>\<open>download_song\<close>, from the animation on, for the URL that was
  selected: the chat action, the two GETs, the audio message, the update of the counters
  and of the history, and the removal of the loading message.
\<close>

definition send_song :: "env \<Rightarrow> int \<Rightarrow> string \<Rightarrow> song \<Rightarrow> string \<Rightarrow> unit io" where
  "send_song env user_id song_id song_data download_url =
     (let name = or_unknown (s_name song_data);
          artist_names = artist_names_of (s_primary_artists song_data)
      in io_bind (animate env name) (\<lambda>_.
         io_bind (chat env SendChatAction_UPLOAD_AUDIO) (\<lambda>_.
         io_bind (fetch_media env download_url (thumbnail_url_of (s_image song_data))) (\<lambda>media.
           case media of
             None \<Rightarrow> chat env (Edit FailedToDownload)
           | Some (audio_data, thumb_data) \<Rightarrow>
               io_bind (chat env (SendAudio \<lparr>a_audio = audio_data, a_thumbnail = thumb_arg thumb_data,
                                            a_title = name, a_performer = artist_names,
                                            a_duration = s_duration song_data\<rparr>)) (\<lambda>_.
               io_bind (io_modify (update_user_stats user_id ''download'' (e_now env))) (\<lambda>_.
               io_bind (io_modify (modify_user_data user_id
                          (record_download \<lparr>h_name = name, h_artist = artist_names,
                                            h_id = song_id\<rparr>))) (\<lambda>_.
                 chat env Delete)))))))"

text \<open>
  \<^verbatim>\<open>download_song\<close> (lines 987-1094). The \<^verbatim>\<open>try\<close> is split where \<^verbatim>\<open>loading_msg\<close> is
  assigned (line 998), so that the handler knows whether the name is bound. The two
  \<^verbatim>\<open>return\<close>s end the block after their edit.
\<close>

definition download_song :: "env \<Rightarrow> int \<Rightarrow> string \<Rightarrow> unit io" where
  "download_song env user_id song_id =
     io_bind (io_get_user_data user_id) (\<lambda>user_data.
       (let quality = ud_quality user_data
        in io_bind (io_try (io_bind (chat env (Answer Downloading)) (\<lambda>_.
                              chat env (Reply PreparingDownload)))) (\<lambda>opened.
             case opened of
               Inl e \<Rightarrow> download_failed env False e
             | Inr _ \<Rightarrow>
                 try_except
                   (case e_get_song_details env song_id of
                      None \<Rightarrow> chat env (Edit FetchDetailsFailed)
                    | Some song_data \<Rightarrow>
                        io_bind (io_lift (quality_index_of quality)) (\<lambda>quality_index.
                        io_bind (io_lift (select_download_url quality_index
                                            (s_downloadUrl song_data))) (\<lambda>download_url.
                          case download_url of
                            None \<Rightarrow> chat env (Edit UrlNotAvailable)
                          | Some u \<Rightarrow>
                              if u = [] then chat env (Edit UrlNotAvailable)
                              else send_song env user_id song_id song_data u)))
                   (download_failed env True))))"

text \<open>
  \<^verbatim>\<open>download_all_songs\<close>, the body of the per-item \<^verbatim>\<open>try\<close> (lines 1131-1192). The title
  and the performer are the summary's; the variants, the image and the duration are those
  of the song looked up by id when the summary has no variant and the lookup succeeds
  (lines 1143-1146, \<open>resolve_song\<close>). \<^verbatim>\<open>continue\<close> at a missing URL ends the body; after
  a non-200 audio response no statement follows.
\<close>

definition resolve_song :: "env \<Rightarrow> song \<Rightarrow> song" where
  "resolve_song env song0 =
     (if s_downloadUrl song0 = [] then
        (case e_get_song_details env (s_id song0) of
           Some d \<Rightarrow> d
         | None \<Rightarrow> song0)
      else song0)"

definition item_body :: "env \<Rightarrow> int \<Rightarrow> nat \<Rightarrow> nat \<Rightarrow> nat \<Rightarrow> song \<Rightarrow> unit io" where
  "item_body env user_id quality_index total_songs idx song0 =
     (let name = or_unknown (s_name song0);
          artist_names = artist_names_of (s_primary_artists song0)
      in io_bind (chat env (Edit (BatchProgress idx total_songs name))) (\<lambda>_.
           (let song = resolve_song env song0
            in io_bind (io_lift (select_download_url quality_index (s_downloadUrl song))) (\<lambda>download_url.
                 case download_url of
                   None \<Rightarrow> io_return ()
                 | Some u \<Rightarrow>
                     if u = [] then io_return ()
                     else
                       io_bind (fetch_media env u (thumbnail_url_of (s_image song))) (\<lambda>media.
                         case media of
                           None \<Rightarrow> io_return ()
                         | Some (audio_data, thumb_data) \<Rightarrow>
                             io_bind (chat env (SendAudio \<lparr>a_audio = audio_data,
                                                          a_thumbnail = thumb_arg thumb_data,
                                                          a_title = name, a_performer = artist_names,
                                                          a_duration = s_duration song\<rparr>)) (\<lambda>_.
                               io_modify (update_user_stats user_id ''download'' (e_now env))))))))"

text \<open>The per-item \<^verbatim>\<open>try ... except Exception as e: logger.error(...); continue\<close>.\<close>

definition download_one :: "env \<Rightarrow> int \<Rightarrow> nat \<Rightarrow> nat \<Rightarrow> nat \<Rightarrow> song \<Rightarrow> unit io" where
  "download_one env user_id quality_index total_songs idx song =
     try_except (item_body env user_id quality_index total_songs idx song)
       (\<lambda>e. io_log (ItemError idx e))"

text \<open>\<^verbatim>\<open>for idx, song in enumerate(songs, 1)\<close>: one item after the other, in list order.\<close>

fun download_loop :: "env \<Rightarrow> int \<Rightarrow> nat \<Rightarrow> nat \<Rightarrow> nat \<Rightarrow> song list \<Rightarrow> unit io" where
  "download_loop env user_id quality_index total_songs idx [] = io_return ()"
| "download_loop env user_id quality_index total_songs idx (song # songs) =
     io_bind (download_one env user_id quality_index total_songs idx song) (\<lambda>_.
       download_loop env user_id quality_index total_songs (Suc idx) songs)"

text \<open>
  \<^verbatim>\<open>download_all_songs\<close> (lines 1096-1204): the outer \<^verbatim>\<open>try\<close> and its \<^verbatim>\<open>except\<close>, whose
  \<^verbatim>\<open>reply_text\<close> is outside any \<^verbatim>\<open>try\<close>.
\<close>

definition download_all_songs :: "env \<Rightarrow> int \<Rightarrow> string \<Rightarrow> string \<Rightarrow> unit io" where
  "download_all_songs env user_id item_id item_type =
     try_except
       (io_bind (chat env (Answer StartingBatch)) (\<lambda>_.
          case (if item_type = ''album'' then e_get_album_details env item_id
                else e_get_playlist_details env item_id 0 100) of
            None \<Rightarrow> chat env (Reply FetchSongsFailed)
          | Some data \<Rightarrow>
              (let songs = c_songs data
               in if songs = [] then chat env (Reply NoSongsFound)
                  else
                    (let total_songs = length songs
                     in io_bind (chat env (Reply (BatchStatus total_songs))) (\<lambda>_.
                        io_bind (io_get_user_data user_id) (\<lambda>user_data.
                        io_bind (io_lift (quality_index_of (ud_quality user_data))) (\<lambda>quality_index.
                        io_bind (download_loop env user_id quality_index total_songs 1 songs) (\<lambda>_.
                          chat env (Edit (DownloadComplete total_songs))))))))))
       (\<lambda>e. io_bind (io_log (BatchError e)) (\<lambda>_. chat env (Reply BatchFailed)))"

section \<open>Interaction tokens\<close>

text \<open>
  The source has no codec of its own: a token is written by an f-string where a keyboard is
  built and read back by the \<^verbatim>\<open>if\<close>/\<^verbatim>\<open>elif\<close> chain of \<^verbatim>\<open>callback_query_handler\<close>.
  \<open>action\<close> names the branches of that chain with the fields each one reads.
\<close>

datatype action =
    MainMenu
  | Help
  | Settings
  | SetQuality string
  | MyStats
  | History
  | ClearHistory
  | SearchPrompt string
  | OpenSong string
  | OpenAlbum string
  | OpenPlaylist string
  | OpenArtist string
  | ArtistSongs string int
  | ArtistAlbums string int
  | Download string
  | DownloadAll string string
  | Similar string
  | ListPage string int string
  | DetailPage string string int
  | AdminPanel
  | AdminBroadcast
  | AdminStats
  | BackSearch
  | Noop

text \<open>
  The \<^verbatim>\<open>callback_data\<close> f-strings: \<^verbatim>\<open>quality_high\<close> (lines 524-532), \<^verbatim>\<open>search_songs\<close>
  (404-409), \<^verbatim>\<open>song_{item_id}\<close> and its siblings (254-269), \<^verbatim>\<open>artist_songs_{artist_id}_0\<close>
  (325-326), \<^verbatim>\<open>dl_{song_id}\<close>, \<^verbatim>\<open>sim_{song_id}\<close> (215-219), \<^verbatim>\<open>dlall_{item_type}_{item_id}\<close>
  (300), \<^verbatim>\<open>list_{item_type}_{page}_{query}\<close> (282, 287), \<^verbatim>\<open>{item_type}detail_{item_id}_{page}\<close>
  (309, 314), and the fixed tokens.
\<close>

fun callback_data_of :: "action \<Rightarrow> string" where
  "callback_data_of MainMenu = ''main_menu''"
| "callback_data_of Help = ''help''"
| "callback_data_of Settings = ''settings''"
| "callback_data_of (SetQuality q) = ''quality_'' @ q"
| "callback_data_of MyStats = ''my_stats''"
| "callback_data_of History = ''history''"
| "callback_data_of ClearHistory = ''clear_history''"
| "callback_data_of (SearchPrompt kind) = ''search_'' @ kind @ ''s''"
| "callback_data_of (OpenSong item_id) = ''song_'' @ item_id"
| "callback_data_of (OpenAlbum item_id) = ''album_'' @ item_id"
| "callback_data_of (OpenPlaylist item_id) = ''playlist_'' @ item_id"
| "callback_data_of (OpenArtist item_id) = ''artist_'' @ item_id"
| "callback_data_of (ArtistSongs artist_id page) =
     ''artist_songs_'' @ artist_id @ ''_'' @ str_int page"
| "callback_data_of (ArtistAlbums artist_id page) =
     ''artist_albums_'' @ artist_id @ ''_'' @ str_int page"
| "callback_data_of (Download song_id) = ''dl_'' @ song_id"
| "callback_data_of (DownloadAll item_type item_id) = ''dlall_'' @ item_type @ ''_'' @ item_id"
| "callback_data_of (Similar song_id) = ''sim_'' @ song_id"
| "callback_data_of (ListPage item_type page query) =
     ''list_'' @ item_type @ ''_'' @ str_int page @ ''_'' @ query"
| "callback_data_of (DetailPage item_type item_id page) =
     item_type @ ''detail_'' @ item_id @ ''_'' @ str_int page"
| "callback_data_of AdminPanel = ''admin_panel''"
| "callback_data_of AdminBroadcast = ''admin_broadcast''"
| "callback_data_of AdminStats = ''admin_stats''"
| "callback_data_of BackSearch = ''back_search''"
| "callback_data_of Noop = ''noop''"

text \<open>\<^verbatim>\<open>int(parts[k]) if len(parts) > k else 0\<close>.\<close>

definition page_field :: "string list \<Rightarrow> nat \<Rightarrow> exn + int" where
  "page_field parts k =
     (if length parts > k then bind_exn (py_index parts (int k)) py_int else Inr 0)"

text \<open>
  The chain of \<^verbatim>\<open>callback_query_handler\<close> (lines 1216-1456), in its order, up to the
  point where a branch has read its fields: \<open>Inl e\<close> where reading them raises, \<open>Inr None\<close>
  where no branch matches.
\<close>

definition parse_callback_data :: "string \<Rightarrow> exn + action option" where
  "parse_callback_data data =
     (if data = ''main_menu'' then Inr (Some MainMenu)
      else if data = ''help'' then Inr (Some Help)
      else if data = ''settings'' then Inr (Some Settings)
      else if startswith data ''quality_'' then
        bind_exn (py_index (split_on CHR ''_'' data) 1) (\<lambda>quality_choice.
          Inr (Some (SetQuality quality_choice)))
      else if data = ''my_stats'' then Inr (Some MyStats)
      else if data = ''history'' then Inr (Some History)
      else if data = ''clear_history'' then Inr (Some ClearHistory)
      else if data = ''search_songs'' then Inr (Some (SearchPrompt ''song''))
      else if data = ''search_albums'' then Inr (Some (SearchPrompt ''album''))
      else if data = ''search_playlists'' then Inr (Some (SearchPrompt ''playlist''))
      else if data = ''search_artists'' then Inr (Some (SearchPrompt ''artist''))
      else if startswith data ''song_'' then
        bind_exn (py_index (split_once CHR ''_'' data) 1) (\<lambda>song_id. Inr (Some (OpenSong song_id)))
      else if startswith data ''album_'' then
        bind_exn (py_index (split_once CHR ''_'' data) 1) (\<lambda>album_id. Inr (Some (OpenAlbum album_id)))
      else if startswith data ''playlist_'' then
        bind_exn (py_index (split_once CHR ''_'' data) 1) (\<lambda>playlist_id.
          Inr (Some (OpenPlaylist playlist_id)))
      else if startswith data ''artist_'' \<and> \<not> startswith data ''artist_songs''
              \<and> \<not> startswith data ''artist_albums'' then
        bind_exn (py_index (split_once CHR ''_'' data) 1) (\<lambda>artist_id.
          Inr (Some (OpenArtist artist_id)))
      else if startswith data ''artist_songs_'' then
        (let parts = split_on CHR ''_'' data
         in bind_exn (py_index parts 2) (\<lambda>artist_id.
            bind_exn (page_field parts 3) (\<lambda>page.
              Inr (Some (ArtistSongs artist_id page)))))
      else if startswith data ''artist_albums_'' then
        (let parts = split_on CHR ''_'' data
         in bind_exn (py_index parts 2) (\<lambda>artist_id.
            bind_exn (page_field parts 3) (\<lambda>page.
              Inr (Some (ArtistAlbums artist_id page)))))
      else if startswith data ''dl_'' then
        bind_exn (py_index (split_once CHR ''_'' data) 1) (\<lambda>song_id. Inr (Some (Download song_id)))
      else if startswith data ''dlall_'' then
        (let parts = split_on CHR ''_'' data
         in bind_exn (py_index parts 1) (\<lambda>item_type.
            bind_exn (py_index parts 2) (\<lambda>item_id.
              Inr (Some (DownloadAll item_type item_id)))))
      else if startswith data ''sim_'' then
        bind_exn (py_index (split_once CHR ''_'' data) 1) (\<lambda>song_id. Inr (Some (Similar song_id)))
      else if startswith data ''list_'' then
        (let parts = split_on CHR ''_'' data
         in bind_exn (py_index parts 1) (\<lambda>item_type.
            bind_exn (bind_exn (py_index parts 2) py_int) (\<lambda>page.
              (let query_text = (if length parts > 3 then join ''_'' (py_slice_from parts 3) else [])
               in Inr (Some (ListPage item_type page query_text))))))
      else if startswith data ''albumdetail_'' \<or> startswith data ''playlistdetail_'' then
        (let parts = split_on CHR ''_'' data;
             item_type = (if startswith data ''albumdetail'' then ''album'' else ''playlist'')
         in bind_exn (py_index parts 1) (\<lambda>item_id.
            bind_exn (page_field parts 2) (\<lambda>page.
              Inr (Some (DetailPage item_type item_id page)))))
      else if data = ''admin_panel'' then Inr (Some AdminPanel)
      else if data = ''admin_broadcast'' then Inr (Some AdminBroadcast)
      else if data = ''admin_stats'' then Inr (Some AdminStats)
      else if data = ''back_search'' then Inr (Some BackSearch)
      else if data = ''noop'' then Inr (Some Noop)
      else Inr None)"

text \<open>
  The actions for which reading back the written token is claimed: the catalog ids hold no
  separator where the chain splits at every underscore, an artist id does not begin with
  \<^verbatim>\<open>songs\<close> or \<^verbatim>\<open>albums\<close> (the guard of the artist branch, line 1308, sends such
  a token elsewhere), and the kinds are the ones the keyboards write. A song, album or
  playlist id may hold anything: those branches split once.
\<close>

definition sep_free :: "string \<Rightarrow> bool" where
  "sep_free s = (CHR ''_'' \<notin> set s)"

fun representable :: "action \<Rightarrow> bool" where
  "representable (SetQuality q) = sep_free q"
| "representable (SearchPrompt kind) =
     (kind = ''song'' \<or> kind = ''album'' \<or> kind = ''playlist'' \<or> kind = ''artist'')"
| "representable (OpenArtist artist_id) =
     (\<not> prefix ''songs'' artist_id \<and> \<not> prefix ''albums'' artist_id)"
| "representable (ArtistSongs artist_id page) = sep_free artist_id"
| "representable (ArtistAlbums artist_id page) = sep_free artist_id"
| "representable (DownloadAll item_type item_id) = (sep_free item_type \<and> sep_free item_id)"
| "representable (ListPage item_type page query) = sep_free item_type"
| "representable (DetailPage item_type item_id page) =
     ((item_type = ''album'' \<or> item_type = ''playlist'') \<and> sep_free item_id)"
| "representable _ = True"

section \<open>Views and keyboards\<close>

text \<open>
  What a turn shows. An alert is \<^verbatim>\<open>query.answer(text, show_alert=True)\<close>; a view is a
  message sent or edited, given with the \<^verbatim>\<open>callback_data\<close> of its buttons in keyboard
  order. Texts and markup are the presentation layer's and are left out.
\<close>

datatype alert =
    UnauthorizedAccess
  | Unauthorized
  | QualitySet string
  | HistoryCleared
  | BroadcastPrompt
  | ErrorOccurred

datatype view =
    MainMenuView
  | HelpView
  | SettingsView string
  | StatsView int int nat string
  | HistoryEmptyView
  | HistoryView "history_entry list"
  | SearchPromptView string
  | SongDetailView song
  | AlbumDetailView collection int "song list"
  | PlaylistDetailView collection int "song list"
  | ArtistProfileView
  | SearchResultsView string string int int
  | NoResultsView string string
  | SearchFailedView
  | ArtistSongsView
  | ArtistAlbumsView
  | SimilarSongsView
  | AdminPanelView nat int int
  | AdminStatsView nat int int "(int \<times> int) list"
  | InvalidUrlView
  | LyricsNotSupportedView

text \<open>The last kind of effect is a run of one of the two retrieval pipelines.\<close>

datatype effect =
    Alert alert
  | Show view "string list"
  | Ran "event list"

text \<open>
  A handler's run: the exception that left it (if any), what it showed up to there, and
  the state it left.
\<close>

type_synonym outcome = "exn option \<times> effect list \<times> bot_state"

definition create_song_keyboard :: "string \<Rightarrow> string list" where
  "create_song_keyboard song_id =
     [callback_data_of (Download song_id), callback_data_of (Similar song_id), ''back_search'']"

text \<open>
  One row of \<^verbatim>\<open>create_list_keyboard\<close>: the button's token, \<open>None\<close> for a type the loop
  skips, \<open>Inl IndexError\<close> where \<^verbatim>\<open>["primary"][0]\<close> reads an empty list.
\<close>

definition first_artist :: "item \<Rightarrow> exn + string" where
  "first_artist it =
     (case i_artists it of
        None \<Rightarrow> Inr ''Unknown''
      | Some primary \<Rightarrow> bind_exn (py_index primary 0) (\<lambda>a. Inr (or_unknown a)))"

definition item_button :: "string \<Rightarrow> item \<Rightarrow> exn + string option" where
  "item_button item_type it =
     (if item_type = ''song'' then
        bind_exn (first_artist it) (\<lambda>_. Inr (Some (callback_data_of (OpenSong (i_id it)))))
      else if item_type = ''album'' then
        bind_exn (first_artist it) (\<lambda>_. Inr (Some (callback_data_of (OpenAlbum (i_id it)))))
      else if item_type = ''playlist'' then Inr (Some (callback_data_of (OpenPlaylist (i_id it))))
      else if item_type = ''artist'' then Inr (Some (callback_data_of (OpenArtist (i_id it))))
      else Inr None)"

fun item_buttons :: "string \<Rightarrow> item list \<Rightarrow> exn + string list" where
  "item_buttons item_type [] = Inr []"
| "item_buttons item_type (it # its) =
     bind_exn (item_button item_type it) (\<lambda>b.
       bind_exn (item_buttons item_type its) (\<lambda>bs.
         Inr ((case b of None \<Rightarrow> [] | Some t \<Rightarrow> [t]) @ bs)))"

definition list_nav_buttons :: "string \<Rightarrow> int \<Rightarrow> int \<Rightarrow> string \<Rightarrow> string list" where
  "list_nav_buttons item_type page total_items query =
     (let limit = 10; total_pages = (total_items + limit - 1) div limit
      in if total_pages > 1 then
           (if page > 0 then [callback_data_of (ListPage item_type (page - 1) query)] else [])
           @ [''noop'']
           @ (if page < total_pages - 1 then [callback_data_of (ListPage item_type (page + 1) query)]
              else [])
         else [])"

definition create_list_keyboard ::
  "item list \<Rightarrow> string \<Rightarrow> int \<Rightarrow> int \<Rightarrow> string \<Rightarrow> exn + string list" where
  "create_list_keyboard items item_type page total_items query =
     bind_exn (item_buttons item_type items) (\<lambda>buttons.
       Inr (buttons @ list_nav_buttons item_type page total_items query @ [''main_menu'']))"

definition create_album_playlist_keyboard :: "string \<Rightarrow> string \<Rightarrow> int \<Rightarrow> int \<Rightarrow> string list" where
  "create_album_playlist_keyboard item_id item_type page total_songs =
     [callback_data_of (DownloadAll item_type item_id)]
     @ (if total_songs > 10 then
          (let limit = 10; total_pages = (total_songs + limit - 1) div limit
           in (if page > 0 then [callback_data_of (DetailPage item_type item_id (page - 1))] else [])
              @ [''noop'']
              @ (if page < total_pages - 1
                 then [callback_data_of (DetailPage item_type item_id (page + 1))] else []))
        else [])
     @ [''back_search'']"

definition create_artist_keyboard :: "string \<Rightarrow> string list" where
  "create_artist_keyboard artist_id =
     [callback_data_of (ArtistSongs artist_id 0), callback_data_of (ArtistAlbums artist_id 0),
      ''back_search'']"

section \<open>Command handlers\<close>

definition start_command :: "env \<Rightarrow> int \<Rightarrow> bot_state \<Rightarrow> outcome" where
  "start_command env user_id st =
     (case get_user_data user_id st of
        (_, st') \<Rightarrow>
          (None,
           [Show MainMenuView
              ([''search_songs'', ''search_albums'', ''search_playlists'', ''search_artists'',
                ''settings'', ''history'', ''my_stats'', ''help'']
               @ (if user_id \<in> set (e_admin_ids env) then [''admin_panel''] else []))],
           st'))"

definition help_command :: "bot_state \<Rightarrow> outcome" where
  "help_command st = (None, [Show HelpView [''main_menu'']], st)"

text \<open>\<^verbatim>\<open>QUALITY_OPTIONS[current_quality]['desc']\<close> raises KeyError for a stored quality that is no tier.\<close>

definition settings_command :: "int \<Rightarrow> bot_state \<Rightarrow> outcome" where
  "settings_command user_id st =
     (case get_user_data user_id st of
        (user_data, st') \<Rightarrow>
          (case QUALITY_OPTIONS (ud_quality user_data) of
             None \<Rightarrow> (Some KeyError, [], st')
           | Some _ \<Rightarrow>
               (None,
                [Show (SettingsView (ud_quality user_data))
                   [''quality_high'', ''quality_medium'', ''quality_low'', ''main_menu'']],
                st')))"

definition stats_command :: "int \<Rightarrow> bot_state \<Rightarrow> outcome" where
  "stats_command user_id st =
     (case get_user_data user_id st of
        (user_data, st') \<Rightarrow>
          (let stats = (case map_of (user_stats st') user_id of
                          None \<Rightarrow> \<lparr>st_downloads = 0, st_searches = 0, st_last_active = None\<rparr>
                        | Some s \<Rightarrow> s)
           in case QUALITY_OPTIONS (ud_quality user_data) of
                None \<Rightarrow> (Some KeyError, [], st')
              | Some _ \<Rightarrow>
                  (None,
                   [Show (StatsView (st_downloads stats) (st_searches stats)
                            (length (ud_history user_data)) (ud_quality user_data))
                      [''main_menu'']],
                   st')))"

definition history_command :: "int \<Rightarrow> bot_state \<Rightarrow> outcome" where
  "history_command user_id st =
     (case get_user_data user_id st of
        (user_data, st') \<Rightarrow>
          (let history = ud_history user_data
           in if history = [] then (None, [Show HistoryEmptyView [''search_songs'']], st')
              else (None,
                    [Show (HistoryView (rev (py_slice_from history (- 10))))
                       [''clear_history'', ''main_menu'']],
                    st')))"

definition sum_stats :: "(stats \<Rightarrow> int) \<Rightarrow> (int \<times> stats) list \<Rightarrow> int" where
  "sum_stats f kvs = sum_list (map (\<lambda>kv. f (snd kv)) kvs)"

definition admin_panel :: "env \<Rightarrow> int \<Rightarrow> bot_state \<Rightarrow> outcome" where
  "admin_panel env user_id st =
     (if user_id \<notin> set (e_admin_ids env) then (None, [Alert UnauthorizedAccess], st)
      else (None,
            [Show (AdminPanelView (length (user_stats st))
                     (sum_stats st_downloads (user_stats st))
                     (sum_stats st_searches (user_stats st)))
               [''admin_broadcast'', ''admin_stats'', ''main_menu'']],
            st))"

section \<open>Search and detail views\<close>

definition set_last_search :: "int \<Rightarrow> last_search_rec \<Rightarrow> bot_state \<Rightarrow> bot_state" where
  "set_last_search user_id ls st =
     st\<lparr>context_user_data :=
          (context_user_data st)(user_id := (context_user_data st user_id)\<lparr>cx_last_search := Some ls\<rparr>)\<rparr>"

text \<open>
  \<^verbatim>\<open>search_and_display\<close>. Its own \<^verbatim>\<open>try\<close> keeps every exception inside; \<open>from_message\<close>
  says whether the turn is a text message (then there is a loading message, whose edit on
  failure is the \<open>SearchFailedView\<close>).
\<close>

definition search_and_display ::
  "env \<Rightarrow> int \<Rightarrow> bool \<Rightarrow> string \<Rightarrow> string \<Rightarrow> int \<Rightarrow> bot_state \<Rightarrow> outcome" where
  "search_and_display env user_id from_message query search_type page st0 =
     (let st = set_last_search user_id \<lparr>ls_query = query, ls_type = search_type, ls_page = page\<rparr>
                 (update_user_stats user_id ''search'' (e_now env) st0)
      in if search_type \<noteq> ''song'' \<and> search_type \<noteq> ''album'' \<and> search_type \<noteq> ''playlist''
            \<and> search_type \<noteq> ''artist'' then (None, [], st)
         else
           (case e_search env search_type query page 10 of
              None \<Rightarrow> (None, [Show (NoResultsView search_type query) [''main_menu'']], st)
            | Some data \<Rightarrow>
                (let results = l_results data; total_items = l_total data
                 in if results = [] then
                      (None, [Show (NoResultsView search_type query) [''main_menu'']], st)
                    else
                      (case create_list_keyboard results search_type page total_items query of
                         Inl e \<Rightarrow> (None, (if from_message then [Show SearchFailedView []] else []), st)
                       | Inr keyboard \<Rightarrow>
                           (None,
                            [Show (SearchResultsView search_type query page total_items) keyboard],
                            st)))))"

definition display_song_details :: "song \<Rightarrow> effect list" where
  "display_song_details song_data =
     [Show (SongDetailView song_data) (create_song_keyboard (s_id song_data))]"

definition display_album_details :: "collection \<Rightarrow> int \<Rightarrow> effect list" where
  "display_album_details album_data page =
     (let start_idx = page * 10; end_idx = start_idx + 10;
          displayed_songs = py_slice (c_songs album_data) start_idx end_idx
      in [Show (AlbumDetailView album_data page displayed_songs)
            (map (\<lambda>s. callback_data_of (OpenSong (s_id s))) displayed_songs
             @ create_album_playlist_keyboard (c_id album_data) ''album'' page
                 (c_songCount album_data))])"

definition display_playlist_details :: "collection \<Rightarrow> int \<Rightarrow> effect list" where
  "display_playlist_details playlist_data page =
     (let start_idx = page * 10; end_idx = start_idx + 10;
          displayed_songs = py_slice (c_songs playlist_data) start_idx end_idx
      in [Show (PlaylistDetailView playlist_data page displayed_songs)
            (map (\<lambda>s. callback_data_of (OpenSong (s_id s))) displayed_songs
             @ create_album_playlist_keyboard (c_id playlist_data) ''playlist'' page
                 (c_songCount playlist_data))])"

section \<open>The callback query handler\<close>

definition set_search_mode :: "int \<Rightarrow> string \<Rightarrow> bot_state \<Rightarrow> bot_state" where
  "set_search_mode user_id m st =
     st\<lparr>context_user_data :=
          (context_user_data st)(user_id := (context_user_data st user_id)\<lparr>cx_search_mode := Some m\<rparr>)\<rparr>"

definition set_admin_mode :: "int \<Rightarrow> string \<Rightarrow> bot_state \<Rightarrow> bot_state" where
  "set_admin_mode user_id m st =
     st\<lparr>context_user_data :=
          (context_user_data st)(user_id := (context_user_data st user_id)\<lparr>cx_admin_mode := Some m\<rparr>)\<rparr>"

text \<open>Running a second handler after a first one that did not raise.\<close>

definition and_then :: "outcome \<Rightarrow> (bot_state \<Rightarrow> outcome) \<Rightarrow> outcome" where
  "and_then r k =
     (case r of
        (Some e, fx, st) \<Rightarrow> (Some e, fx, st)
      | (None, fx, st) \<Rightarrow> (case k st of (r', fx', st') \<Rightarrow> (r', fx @ fx', st')))"

text \<open>
  A read of a local variable of the handler: \<open>None\<close> is a name that no statement on the
  path has assigned, and reading it raises (\<^verbatim>\<open>UnboundLocalError\<close>).
\<close>

definition read_local :: "'a option \<Rightarrow> exn + 'a" where
  "read_local v = (case v of None \<Rightarrow> Inl NameError | Some x \<Rightarrow> Inr x)"

text \<open>
  The bodies of the branches, after their fields are read. In \<open>ArtistAlbums\<close> the total is
  read from \<^verbatim>\<open>songs_data\<close> (line 1341), a local that only the \<^verbatim>\<open>artist_songs_\<close> branch
  assigns (line 1323), so it is unbound here.
\<close>

fun run_action :: "env \<Rightarrow> int \<Rightarrow> action \<Rightarrow> bot_state \<Rightarrow> outcome" where
  "run_action env user_id MainMenu st = start_command env user_id st"
| "run_action env user_id Help st = help_command st"
| "run_action env user_id Settings st = settings_command user_id st"
| "run_action env user_id (SetQuality quality_choice) st =
     (case get_user_data user_id st of
        (_, st1) \<Rightarrow>
          (let st2 = modify_user_data user_id (\<lambda>ud. ud\<lparr>ud_quality := quality_choice\<rparr>) st1
           in case QUALITY_OPTIONS quality_choice of
                None \<Rightarrow> (Some KeyError, [], st2)
              | Some _ \<Rightarrow>
                  and_then (None, [Alert (QualitySet quality_choice)], st2) (settings_command user_id)))"
| "run_action env user_id MyStats st = stats_command user_id st"
| "run_action env user_id History st = history_command user_id st"
| "run_action env user_id ClearHistory st =
     (case get_user_data user_id st of
        (_, st1) \<Rightarrow>
          and_then (None, [Alert HistoryCleared],
                    modify_user_data user_id (\<lambda>ud. ud\<lparr>ud_history := []\<rparr>) st1)
            (history_command user_id))"
| "run_action env user_id (SearchPrompt kind) st =
     (None, [Show (SearchPromptView kind) [''main_menu'']], set_search_mode user_id kind st)"
| "run_action env user_id (OpenSong song_id) st =
     (case e_get_song_details env song_id of
        None \<Rightarrow> (None, [], st)
      | Some song_data \<Rightarrow> (None, display_song_details song_data, st))"
| "run_action env user_id (OpenAlbum album_id) st =
     (case e_get_album_details env album_id of
        None \<Rightarrow> (None, [], st)
      | Some album_data \<Rightarrow> (None, display_album_details album_data 0, st))"
| "run_action env user_id (OpenPlaylist playlist_id) st =
     (case e_get_playlist_details env playlist_id 0 50 of
        None \<Rightarrow> (None, [], st)
      | Some playlist_data \<Rightarrow> (None, display_playlist_details playlist_data 0, st))"
| "run_action env user_id (OpenArtist artist_id) st =
     (None, [Show ArtistProfileView (create_artist_keyboard artist_id)], st)"
| "run_action env user_id (ArtistSongs artist_id page) st =
     (case e_get_artist_songs env artist_id page 10 of
        None \<Rightarrow> (None, [], st)
      | Some songs_data \<Rightarrow>
          (case create_list_keyboard (l_results songs_data) ''song'' page (l_total songs_data)
                  artist_id of
             Inl e \<Rightarrow> (Some e, [], st)
           | Inr keyboard \<Rightarrow> (None, [Show ArtistSongsView keyboard], st)))"
| "run_action env user_id (ArtistAlbums artist_id page) st =
     (case e_get_artist_albums env artist_id page 10 of
        None \<Rightarrow> (None, [], st)
      | Some albums_data \<Rightarrow>
          (let results = l_results albums_data;
               songs_data = (None :: listing option)
           in case read_local songs_data of
                Inl e \<Rightarrow> (Some e, [], st)
              | Inr sd \<Rightarrow>
                  (case create_list_keyboard results ''album'' page (l_total sd) artist_id of
                     Inl e \<Rightarrow> (Some e, [], st)
                   | Inr keyboard \<Rightarrow> (None, [Show ArtistAlbumsView keyboard], st))))"
| "run_action env user_id (Download song_id) st =
     (case download_song env user_id song_id st of
        (r, t, st') \<Rightarrow> (raised (r, t, st'), [Ran t], st'))"
| "run_action env user_id (DownloadAll item_type item_id) st =
     (case download_all_songs env user_id item_id item_type st of
        (r, t, st') \<Rightarrow> (raised (r, t, st'), [Ran t], st'))"
| "run_action env user_id (Similar song_id) st =
     (case e_get_song_suggestions env song_id 10 of
        None \<Rightarrow> (None, [], st)
      | Some results \<Rightarrow>
          (case create_list_keyboard results ''song'' 0 (int (length results)) [] of
             Inl e \<Rightarrow> (Some e, [], st)
           | Inr keyboard \<Rightarrow> (None, [Show SimilarSongsView keyboard], st)))"
| "run_action env user_id (ListPage item_type page query_text) st =
     (case cx_last_search (context_user_data st user_id) of
        None \<Rightarrow> (None, [], st)
      | Some last_search \<Rightarrow>
          if ls_query last_search = [] then (None, [], st)
          else search_and_display env user_id False (ls_query last_search) item_type page st)"
| "run_action env user_id (DetailPage item_type item_id page) st =
     (if item_type = ''album'' then
        (case e_get_album_details env item_id of
           None \<Rightarrow> (None, [], st)
         | Some album_data \<Rightarrow> (None, display_album_details album_data page, st))
      else
        (case e_get_playlist_details env item_id 0 100 of
           None \<Rightarrow> (None, [], st)
         | Some playlist_data \<Rightarrow> (None, display_playlist_details playlist_data page, st)))"
| "run_action env user_id AdminPanel st = admin_panel env user_id st"
| "run_action env user_id AdminBroadcast st =
     (None, [Alert BroadcastPrompt], set_admin_mode user_id ''broadcast'' st)"
| "run_action env user_id AdminStats st =
     (if user_id \<notin> set (e_admin_ids env) then (None, [Alert Unauthorized], st)
      else (None,
            [Show (AdminStatsView (length (user_stats st))
                     (sum_stats st_downloads (user_stats st))
                     (sum_stats st_searches (user_stats st))
                     (take 5 (sort_key (\<lambda>p. - snd p)
                                (map (\<lambda>kv. (fst kv, st_downloads (snd kv))) (user_stats st)))))
               [''admin_panel'']],
            st))"
| "run_action env user_id BackSearch st =
     (case cx_last_search (context_user_data st user_id) of
        None \<Rightarrow> start_command env user_id st
      | Some last_search \<Rightarrow>
          search_and_display env user_id False (ls_query last_search) (ls_type last_search)
            (ls_page last_search) st)"
| "run_action env user_id Noop st = (None, [], st)"

text \<open>
  \<^verbatim>\<open>callback_query_handler\<close>: the chain inside \<^verbatim>\<open>try\<close>, and the \<^verbatim>\<open>except Exception\<close>
  that answers with the error alert (lines 1458-1460). A token that no branch matches
  runs no statement.
\<close>

definition callback_query_handler :: "env \<Rightarrow> int \<Rightarrow> string \<Rightarrow> bot_state \<Rightarrow> effect list \<times> bot_state" where
  "callback_query_handler env user_id data st =
     (case parse_callback_data data of
        Inl e \<Rightarrow> ([Alert ErrorOccurred], st)
      | Inr None \<Rightarrow> ([], st)
      | Inr (Some a) \<Rightarrow>
          (case run_action env user_id a st of
             (None, fx, st') \<Rightarrow> (fx, st')
           | (Some e, fx, st') \<Rightarrow> (fx @ [Alert ErrorOccurred], st')))"

section \<open>Free-text turns\<close>

text \<open>
  \<^verbatim>\<open>extract_jiosaavn_id\<close> (lines 102-122), on the path that \<^verbatim>\<open>urlparse\<close> gives; the bare
  \<^verbatim>\<open>except\<close> turns every exception into \<^verbatim>\<open>(None, None)\<close>.
\<close>

definition last_segment_as :: "string \<Rightarrow> string \<Rightarrow> string option \<times> string option" where
  "last_segment_as path kind =
     (case py_index (split_on CHR ''/'' path) (- 1) of
        Inl _ \<Rightarrow> (None, None)
      | Inr item_id \<Rightarrow> (Some item_id, Some kind))"

definition extract_jiosaavn_id :: "env \<Rightarrow> string \<Rightarrow> string option \<times> string option" where
  "extract_jiosaavn_id env url =
     (case e_urlparse_path env url of
        Inl _ \<Rightarrow> (None, None)
      | Inr path \<Rightarrow>
          if contains path ''/song/'' then last_segment_as path ''song''
          else if contains path ''/album/'' then last_segment_as path ''album''
          else if contains path ''/featured/'' \<or> contains path ''/playlist/''
            then last_segment_as path ''playlist''
          else if contains path ''/artist/'' then last_segment_as path ''artist''
          else (None, None))"

definition handle_url :: "env \<Rightarrow> string \<Rightarrow> bot_state \<Rightarrow> effect list \<times> bot_state" where
  "handle_url env url st =
     (case extract_jiosaavn_id env url of
        (item_id, item_type) \<Rightarrow>
          if \<not> truthy item_id \<or> \<not> truthy item_type then ([Show InvalidUrlView []], st)
          else
            (let i = or_unknown item_id; t = or_unknown item_type
             in if t = ''song'' then
                  (case e_get_song_details env i of
                     None \<Rightarrow> ([], st)
                   | Some data \<Rightarrow> (display_song_details data, st))
                else if t = ''album'' then
                  (case e_get_album_details env i of
                     None \<Rightarrow> ([], st)
                   | Some data \<Rightarrow> (display_album_details data 0, st))
                else if t = ''playlist'' then
                  (case e_get_playlist_details env i 0 50 of
                     None \<Rightarrow> ([], st)
                   | Some data \<Rightarrow> (display_playlist_details data 0, st))
                else if t = ''artist'' then
                  ([Show ArtistProfileView (create_artist_keyboard i)], st)
                else ([], st)))"

definition handle_text_message :: "env \<Rightarrow> int \<Rightarrow> string \<Rightarrow> bot_state \<Rightarrow> effect list \<times> bot_state" where
  "handle_text_message env user_id message_text st =
     (let text = strip message_text
      in if contains text ''jiosaavn.com'' \<or> contains text ''saavn.com'' then handle_url env text st
         else if length (split_ws text) > 6 then ([Show LyricsNotSupportedView []], st)
         else (case search_and_display env user_id True text ''song'' 0 st of
                 (_, fx, st') \<Rightarrow> (fx, st')))"

text \<open>A session's turns, as the transport delivers them.\<close>

datatype turn = Token string | Text string

definition handle_turn :: "env \<Rightarrow> int \<Rightarrow> turn \<Rightarrow> bot_state \<Rightarrow> effect list \<times> bot_state" where
  "handle_turn env user_id t st =
     (case t of
        Token data \<Rightarrow> callback_query_handler env user_id data st
      | Text message_text \<Rightarrow> handle_text_message env user_id message_text st)"

fun handle_turns :: "env \<Rightarrow> (int \<times> turn) list \<Rightarrow> bot_state \<Rightarrow> bot_state" where
  "handle_turns env [] st = st"
| "handle_turns env ((user_id, t) # ts) st = handle_turns env ts (snd (handle_turn env user_id t st))"


section \<open>The download history\<close>

text \<open>Every session's history holds at most 50 entries.\<close>

definition history_bounded :: "bot_state \<Rightarrow> bool" where
  "history_bounded st =
     (\<forall>user_id ud. user_data_store st user_id = Some ud \<longrightarrow> length (ud_history ud) \<le> 50)"

text \<open>The history of a session; a session never seen has none.\<close>

definition history_of :: "int \<Rightarrow> bot_state \<Rightarrow> history_entry list" where
  "history_of user_id st =
     (case user_data_store st user_id of None \<Rightarrow> [] | Some ud \<Rightarrow> ud_history ud)"

text \<open>A block keeps a property of the state if it holds after every run from a state that has it.\<close>

definition io_keeps :: "(bot_state \<Rightarrow> bool) \<Rightarrow> 'a io \<Rightarrow> bool" where
  "io_keeps P m = (\<forall>st. P st \<longrightarrow> P (state_after (m st)))"

text \<open>
  A run of download turns of one session (the tokens \<^verbatim>\<open>dl_{song_id}\<close>), and whether in
  each of them the transport accepted an audio message.
\<close>

definition download_turns :: "int \<Rightarrow> string list \<Rightarrow> (int \<times> turn) list" where
  "download_turns user_id song_ids =
     map (\<lambda>song_id. (user_id, Token (callback_data_of (Download song_id)))) song_ids"

fun ran :: "effect list \<Rightarrow> event list" where
  "ran [] = []"
| "ran (Ran t # fx) = t @ ran fx"
| "ran (_ # fx) = ran fx"

definition audio_sent :: "env \<Rightarrow> effect list \<Rightarrow> bool" where
  "audio_sent env fx = (sent_audios env (ran fx) \<noteq> [])"

fun downloads_sent :: "env \<Rightarrow> int \<Rightarrow> string list \<Rightarrow> bot_state \<Rightarrow> bool" where
  "downloads_sent env user_id [] st = True"
| "downloads_sent env user_id (song_id # song_ids) st =
     (audio_sent env (fst (handle_turn env user_id (Token (callback_data_of (Download song_id))) st))
      \<and> downloads_sent env user_id song_ids
           (snd (handle_turn env user_id (Token (callback_data_of (Download song_id))) st)))"

text \<open>The song ids \<open>t1\<close> .. \<open>t51\<close>.\<close>

definition fifty_one_ids :: "string list" where
  "fifty_one_ids = map (\<lambda>n. CHR ''t'' # str_nat n) [1..<52]"

section \<open>Example worlds\<close>

text \<open>
  A catalog with the album \<open>alb\<close> of five songs \<open>s1\<close> .. \<open>s5\<close>, of which \<open>s3\<close> has no
  download variant (none in the album's summary, and the by-id lookup fails), and the album
  \<open>solo\<close> that holds \<open>s3\<close> alone; every other song has the five variants, except \<open>s0\<close>,
  which has none, and \<open>s6\<close>, which has the two lowest only. Every GET answers 200. The chat library is python-telegram-bot 20 or
  later, the one whose modules \<^verbatim>\<open>telegram.constants\<close> and \<^verbatim>\<open>telegram.ext\<close> the file
  imports: its \<^verbatim>\<open>ChatAction\<close> has no member \<^verbatim>\<open>UPLOAD_AUDIO\<close>, so line 1039 raises
  AttributeError; the transport accepts every other call. \<^verbatim>\<open>urlparse\<close> gives the path
  of the one example URL, and for any other text the text itself (as it does for a text
  without scheme, query, fragment and parameters). User 1 is the only administrator.
\<close>

definition example_links :: "string \<Rightarrow> media_link list" where
  "example_links sid =
     map (\<lambda>q. \<lparr>ml_quality = q, ml_url = Some (''https://cdn.example/'' @ sid @ ''/'' @ q)\<rparr>)
       [''12kbps'', ''48kbps'', ''96kbps'', ''160kbps'', ''320kbps'']"

definition example_song :: "string \<Rightarrow> bool \<Rightarrow> song" where
  "example_song sid has_links =
     \<lparr>s_id = sid, s_name = Some sid, s_primary_artists = [Some ''Artist''],
      s_downloadUrl = (if has_links then example_links sid else []),
      s_image = [], s_duration = 200\<rparr>"

definition short_song :: song where
  "short_song = (example_song ''s6'' True)\<lparr>s_downloadUrl := take 2 (example_links ''s6'')\<rparr>"

definition example_album :: collection where
  "example_album =
     \<lparr>c_id = ''alb'', c_name = Some ''Album'', c_songCount = 5,
      c_songs = [example_song ''s1'' True, example_song ''s2'' True, example_song ''s3'' False,
                 example_song ''s4'' True, example_song ''s5'' True],
      c_image = []\<rparr>"

definition solo_album :: collection where
  "solo_album =
     \<lparr>c_id = ''solo'', c_name = Some ''Solo'', c_songCount = 1,
      c_songs = [example_song ''s3'' False], c_image = []\<rparr>"

definition example_env :: env where
  "example_env =
     \<lparr>e_admin_ids = [1],
      e_now = ''2024-01-01T00:00:00'',
      e_get_song_details =
        (\<lambda>sid. if sid = ''s3'' then None
               else if sid = ''s6'' then Some short_song
               else Some (example_song sid (sid \<noteq> ''s0''))),
      e_get_album_details =
        (\<lambda>i. if i = ''alb'' then Some example_album
             else if i = ''solo'' then Some solo_album else None),
      e_get_playlist_details = (\<lambda>_ _ _. None),
      e_search = (\<lambda>_ _ _ _. None),
      e_get_artist_songs = (\<lambda>_ _ _. None),
      e_get_artist_albums =
        (\<lambda>_ _ _. Some \<lparr>l_results = [\<lparr>i_id = ''a1'', i_artists = None\<rparr>], l_total = 1\<rparr>),
      e_get_song_suggestions = (\<lambda>_ _. None),
      e_http_get = (\<lambda>_. Inr \<lparr>r_status = 200, r_body = Inr ''audio''\<rparr>),
      e_chat = (\<lambda>c. if c = SendChatAction_UPLOAD_AUDIO then Inl AttributeError else Inr ()),
      e_urlparse_path =
        (\<lambda>url. if url = ''https://www.jiosaavn.com/song/tum-hi-ho/s1''
               then Inr ''/song/tum-hi-ho/s1'' else Inr url)\<rparr>"

text \<open>
  The same world with cover art on every song, where the GET of the largest image is
  answered as given.
\<close>

definition thumb_links :: "media_link list" where
  "thumb_links = [\<lparr>ml_quality = ''50x50'', ml_url = Some ''https://img.example/50.jpg''\<rparr>,
                  \<lparr>ml_quality = ''500x500'', ml_url = Some ''https://img.example/500.jpg''\<rparr>]"

definition thumb_song :: "string \<Rightarrow> song" where
  "thumb_song sid = (example_song sid True)\<lparr>s_image := thumb_links\<rparr>"

definition thumb_env :: "(exn + http_response) \<Rightarrow> env" where
  "thumb_env thumb_answer =
     example_env\<lparr>
       e_get_song_details := (\<lambda>sid. Some (thumb_song sid)),
       e_http_get := (\<lambda>u. if u = ''https://img.example/500.jpg'' then thumb_answer
                           else Inr \<lparr>r_status = 200, r_body = Inr ''audio''\<rparr>)\<rparr>"




section \<open>Runs\<close>

lemma run_parts [simp]: "(fst r, events r, state_after r) = r"
  by (simp add: events_def state_after_def)

lemma raised_simps [simp]:
  "raised (Inl e, t, st) = Some e" "raised (Inr x, t, st) = None"
  by (simp_all add: raised_def)

lemma events_simp [simp]: "events (r, t, st) = t"
  by (simp add: events_def)

lemma state_after_simp [simp]: "state_after (r, t, st) = st"
  by (simp add: state_after_def)

lemma io_bind_run:
  "io_bind m k st =
     (case fst (m st) of
        Inl e \<Rightarrow> (Inl e, events (m st), state_after (m st))
      | Inr x \<Rightarrow>
          (fst (k x (state_after (m st))),
           events (m st) @ events (k x (state_after (m st))),
           state_after (k x (state_after (m st)))))"
  by (cases "m st") (auto simp: io_bind_def events_def state_after_def split: sum.splits prod.splits)

lemma try_except_run:
  "try_except m h st =
     (case fst (m st) of
        Inl e \<Rightarrow>
          (fst (h e (state_after (m st))),
           events (m st) @ events (h e (state_after (m st))),
           state_after (h e (state_after (m st))))
      | Inr x \<Rightarrow> (Inr x, events (m st), state_after (m st)))"
  by (cases "m st")
     (auto simp: try_except_def io_try_def io_bind_def io_return_def events_def state_after_def
           split: sum.splits prod.splits)

lemma chat_run [simp]: "chat env c st = (e_chat env c, [Chat c], st)"
  by (simp add: chat_def)

lemma http_get_run [simp]: "http_get env u st = (e_http_get env u, [Get u], st)"
  by (simp add: http_get_def)

lemma io_simple_runs [simp]:
  "io_return x st = (Inr x, [], st)"
  "io_lift r st = (r, [], st)"
  "io_log l st = (Inr (), [Log l], st)"
  "io_modify f st = (Inr (), [], f st)"
  by (simp_all add: io_return_def io_lift_def io_log_def io_modify_def)


lemma io_bind_lift [simp]: "io_bind (io_lift (Inr x)) k = k x"
  by (simp add: fun_eq_iff io_bind_run)




lemma requests_append [simp]: "requests (a @ b) = requests a @ requests b"
  by (induction a rule: requests.induct) auto

lemma audios_append [simp]: "audios (a @ b) = audios a @ audios b"
  by (induction a rule: audios.induct) auto

lemma animate_round_quiet [simp]:
  "requests (animate_round env name ks) = []" "audios (animate_round env name ks) = []"
  by (induction ks) (auto split: sum.splits)

lemma animate_run [simp]:
  "fst (animate env name st) = Inr ()" "state_after (animate env name st) = st"
  by (simp_all add: animate_def)

lemma animate_events_state: "events (animate env name st) = events (animate env name st')"
  by (simp add: animate_def)

lemma animate_quiet [simp]:
  "requests (events (animate env name st)) = []" "audios (events (animate env name st)) = []"
proof -
  have "requests (concat (replicate n (animate_round env name ks))) = []" for n ks
    by (induction n) auto
  moreover have "audios (concat (replicate n (animate_round env name ks))) = []" for n ks
    by (induction n) auto
  ultimately show "requests (events (animate env name st)) = []"
    "audios (events (animate env name st)) = []"
    by (simp_all add: animate_def)
qed

section \<open>Variant selection\<close>

















lemma download_failed_quiet [simp]:
  "requests (events (download_failed env b e st)) = []"
  "audios (events (download_failed env b e st)) = []"
  by (simp_all add: download_failed_def io_bind_run try_except_run split: sum.split)







section \<open>Single downloads\<close>

text \<open>
  C9 fails on the code. A single download never reaches the two GETs: line 1039 reads
  \<^verbatim>\<open>ChatAction.UPLOAD_AUDIO\<close>, which the chat library does not have, inside the \<^verbatim>\<open>try\<close>
  and before the session is opened. For the song \<open>s1\<close>, whose audio is served with status 200
  and whose cover is answered with 404, the run is: the answer, the loading message, the
  animation, the chat action that raises, the log line, and the edit to "Download failed".
  No URL is requested and no audio is sent. The loop of \<^verbatim>\<open>download_all_songs\<close>, which has
  no such line, sends the same song without a thumbnail after requesting both URLs.
\<close>

theorem single_download_fails_at_chat_action:
  "events (download_song (thumb_env (Inr \<lparr>r_status = 404, r_body = Inr []\<rparr>)) 7 ''s1'' initial_state) =
     [Chat (Answer Downloading), Chat (Reply PreparingDownload)]
     @ events (animate (thumb_env (Inr \<lparr>r_status = 404, r_body = Inr []\<rparr>)) ''s1'' initial_state)
     @ [Chat SendChatAction_UPLOAD_AUDIO, Log (DownloadError AttributeError),
        Chat (Edit DownloadFailed)] \<and>
   raised (download_song (thumb_env (Inr \<lparr>r_status = 404, r_body = Inr []\<rparr>)) 7 ''s1'' initial_state)
     = None \<and>
   requests (events (download_song (thumb_env (Inr \<lparr>r_status = 404, r_body = Inr []\<rparr>)) 7 ''s1''
                       initial_state)) = [] \<and>
   audios (events (download_song (thumb_env (Inr \<lparr>r_status = 404, r_body = Inr []\<rparr>)) 7 ''s1''
                     initial_state)) = [] \<and>
   events (download_one (thumb_env (Inr \<lparr>r_status = 404, r_body = Inr []\<rparr>)) 7 3 1 1
             (thumb_song ''s1'') initial_state) =
     [Chat (Edit (BatchProgress 1 1 ''s1'')),
      Get ''https://cdn.example/s1/160kbps'', Get ''https://img.example/500.jpg'',
      Chat (SendAudio \<lparr>a_audio = ''audio'', a_thumbnail = None, a_title = ''s1'',
                       a_performer = ''Artist'', a_duration = 200\<rparr>)]"
  by code_simp

lemma thumbnail_exception_ends_batch_item:
  "events (download_one (thumb_env (Inl TransportError)) 7 3 1 1 (thumb_song ''s1'') initial_state) =
     [Chat (Edit (BatchProgress 1 1 ''s1'')),
      Get ''https://cdn.example/s1/160kbps'', Get ''https://img.example/500.jpg'',
      Log (ItemError 1 TransportError)]"
  by code_simp

section \<open>Batch retrieval\<close>

text \<open>
  C1 fails on the code. In the example album one of the five items is passed over and four
  are sent, and the closing edit of \<^verbatim>\<open>download_all_songs\<close> reads "Successfully sent 5
  songs": it prints \<^verbatim>\<open>total_songs\<close>, the run keeps no count of what was sent.
\<close>

theorem batch_summary_reports_total_as_sent:
  "events (download_all_songs example_env 7 ''alb'' ''album'' initial_state) =
     [Chat (Answer StartingBatch), Chat (Reply (BatchStatus 5)),
      Chat (Edit (BatchProgress 1 5 ''s1'')),
      Get ''https://cdn.example/s1/160kbps'',
      Chat (SendAudio \<lparr>a_audio = ''audio'', a_thumbnail = None, a_title = ''s1'',
                       a_performer = ''Artist'', a_duration = 200\<rparr>),
      Chat (Edit (BatchProgress 2 5 ''s2'')),
      Get ''https://cdn.example/s2/160kbps'',
      Chat (SendAudio \<lparr>a_audio = ''audio'', a_thumbnail = None, a_title = ''s2'',
                       a_performer = ''Artist'', a_duration = 200\<rparr>),
      Chat (Edit (BatchProgress 3 5 ''s3'')),
      Chat (Edit (BatchProgress 4 5 ''s4'')),
      Get ''https://cdn.example/s4/160kbps'',
      Chat (SendAudio \<lparr>a_audio = ''audio'', a_thumbnail = None, a_title = ''s4'',
                       a_performer = ''Artist'', a_duration = 200\<rparr>),
      Chat (Edit (BatchProgress 5 5 ''s5'')),
      Get ''https://cdn.example/s5/160kbps'',
      Chat (SendAudio \<lparr>a_audio = ''audio'', a_thumbnail = None, a_title = ''s5'',
                       a_performer = ''Artist'', a_duration = 200\<rparr>),
      Chat (Edit (DownloadComplete 5))] \<and>
   raised (download_all_songs example_env 7 ''alb'' ''album'' initial_state) = None \<and>
   length (c_songs example_album) = 5 \<and>
   length (sent_audios example_env
             (events (download_all_songs example_env 7 ''alb'' ''album'' initial_state))) = 4"
  by code_simp










section \<open>Reading tokens\<close>

lemma split_on_not_Nil: "split_on sep s \<noteq> []"
  by (induction s) auto

lemma split_on_append:
  "sep \<notin> set a \<Longrightarrow> split_on sep (a @ sep # b) = a # split_on sep b"
  by (induction a) (auto simp: split_on_not_Nil)

lemma split_on_no_sep: "sep \<notin> set a \<Longrightarrow> split_on sep a = [a]"
  by (induction a) auto

lemma handler_parse_error:
  "parse_callback_data data = Inl e \<Longrightarrow>
     callback_query_handler env user_id data st = ([Alert ErrorOccurred], st)"
  by (simp add: callback_query_handler_def)


lemma parse_artist_albums:
  "parse_callback_data (''artist_albums_'' @ rest) =
     bind_exn (page_field (''artist'' # ''albums'' # split_on CHR ''_'' rest) 3) (\<lambda>page.
       Inr (Some (ArtistAlbums (hd (split_on CHR ''_'' rest)) page)))"
proof -
  obtain f fs where s: "split_on CHR ''_'' rest = f # fs"
    using split_on_not_Nil [of "CHR ''_''" rest] by (cases "split_on CHR ''_'' rest") auto
  show ?thesis
    by (simp add: parse_callback_data_def startswith_def Let_def s py_index_def bind_exn_def)
qed

lemma run_artist_albums:
  "e_get_artist_albums env artist_id page 10 = Some albums_data \<Longrightarrow>
     run_action env user_id (ArtistAlbums artist_id page) st = (Some NameError, [], st)"
  by (simp add: read_local_def)


lemma page_field_cases: "(\<exists>p. page_field parts k = Inr p) \<or> page_field parts k = Inl ValueError"
proof (cases "length parts > k")
  case True
  then have "py_index parts (int k) = Inr (parts ! k)"
    by (simp add: py_index_def)
  moreover have "(\<exists>p. py_int s = Inr p) \<or> py_int s = Inl ValueError" for s
  proof -
    have d: "(\<exists>n. parse_digits ds = Inr n) \<or> parse_digits ds = Inl ValueError" for ds
      by (simp add: parse_digits_def Let_def)
    show ?thesis
    proof (cases "rev (dropWhile int_space (rev (dropWhile int_space s)))")
      case Nil
      show ?thesis unfolding py_int_def Nil by simp
    next
      case (Cons c cs)
      from d [of cs] d [of "c # cs"] show ?thesis
        unfolding py_int_def Cons by (auto simp: bind_exn_def)
    qed
  qed
  ultimately show ?thesis using True
    by (auto simp: page_field_def bind_exn_def)
next
  case False
  then show ?thesis by (simp add: page_field_def)
qed

text \<open>
  C10. Every token that starts with \<^verbatim>\<open>artist_albums_\<close> reaches the artist-albums branch.
  Either its page field is no integer (ValueError, answered with the error alert), or the
  branch fetches the artist's albums and, for every successful payload, the read of the
  unassigned \<^verbatim>\<open>songs_data\<close> raises NameError: the handler answers with the generic error
  alert and the state is as before. In no case is the artist-albums list shown.
\<close>

theorem artist_albums_token_raises_name_error:
  assumes "startswith data ''artist_albums_''"
  shows "(parse_callback_data data = Inl ValueError \<or>
          (\<exists>artist_id page.
             parse_callback_data data = Inr (Some (ArtistAlbums artist_id page)) \<and>
             (\<forall>env user_id st.
                e_get_artist_albums env artist_id page 10 \<noteq> None \<longrightarrow>
                run_action env user_id (ArtistAlbums artist_id page) st = (Some NameError, [], st) \<and>
                callback_query_handler env user_id data st = ([Alert ErrorOccurred], st)))) \<and>
         (\<forall>env user_id st keyboard.
            Show ArtistAlbumsView keyboard \<notin> set (fst (callback_query_handler env user_id data st)))"
proof -
  from assms obtain rest where d: "data = ''artist_albums_'' @ rest"
    by (auto simp: startswith_def prefix_def)
  let ?parts = "''artist'' # ''albums'' # split_on CHR ''_'' rest"
  let ?id = "hd (split_on CHR ''_'' rest)"
  have run: "run_action env user_id (ArtistAlbums a p) st = (Some NameError, [], st)"
    if "e_get_artist_albums env a p 10 \<noteq> None" for env user_id a p st
    using that by (auto simp: read_local_def)
  have run_none: "run_action env user_id (ArtistAlbums a p) st = (None, [], st)"
    if "e_get_artist_albums env a p 10 = None" for env user_id a p st
    using that by simp
  from page_field_cases [of ?parts 3] show ?thesis
  proof
    assume "\<exists>p. page_field ?parts 3 = Inr p"
    then obtain p where p: "page_field ?parts 3 = Inr p" ..
    have parse: "parse_callback_data data = Inr (Some (ArtistAlbums ?id p))"
      unfolding d parse_artist_albums p by (simp add: bind_exn_def)
    have h: "callback_query_handler env user_id data st =
               (if e_get_artist_albums env ?id p 10 = None then ([], st)
                else ([Alert ErrorOccurred], st))" for env user_id st
      using run [of env ?id p user_id st] run_none [of env ?id p user_id st]
      by (auto simp: callback_query_handler_def parse)
    show ?thesis
      using parse run h by auto
  next
    assume v: "page_field ?parts 3 = Inl ValueError"
    have parse: "parse_callback_data data = Inl ValueError"
      unfolding d parse_artist_albums v by (simp add: bind_exn_def)
    then show ?thesis
      by (simp add: handler_parse_error)
  qed
qed

theorem artist_albums_token_raises_name_error_witness:
  "startswith ''artist_albums_x_0'' ''artist_albums_'' \<and>
   e_get_artist_albums example_env ''x'' 0 10 \<noteq> None \<and>
   callback_query_handler example_env 7 ''artist_albums_x_0'' initial_state =
     ([Alert ErrorOccurred], initial_state)"
proof -
  have a: "startswith ''artist_albums_x_0'' ''artist_albums_''"
    by (simp add: startswith_def)
  have p: "parse_callback_data ''artist_albums_x_0'' = Inr (Some (ArtistAlbums ''x'' 0))"
    by code_simp
  have f: "e_get_artist_albums example_env ''x'' 0 10 \<noteq> None"
    by (simp add: example_env_def)
  from artist_albums_token_raises_name_error [OF a] p f
  show ?thesis using a by auto
qed

section \<open>Admin tokens\<close>

lemma admin_panel_token_gated:
  "user_id \<notin> set (e_admin_ids env) \<Longrightarrow>
     callback_query_handler env user_id ''admin_panel'' st = ([Alert UnauthorizedAccess], st)"
  by (simp add: callback_query_handler_def parse_callback_data_def startswith_def admin_panel_def)

lemma admin_stats_token_gated:
  "user_id \<notin> set (e_admin_ids env) \<Longrightarrow>
     callback_query_handler env user_id ''admin_stats'' st = ([Alert Unauthorized], st)"
  by (simp add: callback_query_handler_def parse_callback_data_def startswith_def)

text \<open>
  C2 fails on the code. User 7 is not in the allow-list; the token \<^verbatim>\<open>admin_broadcast\<close>
  is answered with the broadcast prompt, not with a rejection, and sets the session's
  \<^verbatim>\<open>admin_mode\<close> to \<^verbatim>\<open>broadcast\<close>. (The tokens \<^verbatim>\<open>admin_panel\<close> and \<^verbatim>\<open>admin_stats\<close>
  are gated, see the two lemmas above; \<^verbatim>\<open>broadcast_confirm\<close> has no branch in the
  handler and is ignored without a rejection.)
\<close>

theorem admin_broadcast_token_not_gated:
  "7 \<notin> set (e_admin_ids example_env) \<and>
   fst (callback_query_handler example_env 7 ''admin_broadcast'' initial_state)
     = [Alert BroadcastPrompt] \<and>
   cx_admin_mode (context_user_data initial_state 7) = None \<and>
   cx_admin_mode (context_user_data
       (snd (callback_query_handler example_env 7 ''admin_broadcast'' initial_state)) 7)
     = Some ''broadcast'' \<and>
   callback_query_handler example_env 7 ''broadcast_confirm'' initial_state = ([], initial_state)"
  by (simp add: callback_query_handler_def parse_callback_data_def startswith_def
        set_admin_mode_def initial_state_def empty_ctx_def example_env_def)

section \<open>Malformed tokens\<close>

lemma parse_list_token:
  "parse_callback_data (''list_'' @ rest) =
     (let parts = ''list'' # split_on CHR ''_'' rest
      in bind_exn (bind_exn (py_index parts 2) py_int) (\<lambda>page.
           Inr (Some (ListPage (hd (split_on CHR ''_'' rest)) page
                  (if length parts > 3 then join ''_'' (py_slice_from parts 3) else [])))))"
proof -
  obtain f fs where s: "split_on CHR ''_'' rest = f # fs"
    using split_on_not_Nil [of "CHR ''_''" rest] by (cases "split_on CHR ''_'' rest") auto
  show ?thesis
    by (simp add: parse_callback_data_def startswith_def Let_def s py_index_def bind_exn_def)
qed

lemma parse_dlall_token:
  "parse_callback_data (''dlall_'' @ rest) =
     (let parts = ''dlall'' # split_on CHR ''_'' rest
      in bind_exn (py_index parts 2) (\<lambda>item_id.
           Inr (Some (DownloadAll (hd (split_on CHR ''_'' rest)) item_id))))"
proof -
  obtain f fs where s: "split_on CHR ''_'' rest = f # fs"
    using split_on_not_Nil [of "CHR ''_''" rest] by (cases "split_on CHR ''_'' rest") auto
  show ?thesis
    by (simp add: parse_callback_data_def startswith_def Let_def s py_index_def bind_exn_def)
qed

lemma parse_artist_songs:
  "parse_callback_data (''artist_songs_'' @ rest) =
     bind_exn (page_field (''artist'' # ''songs'' # split_on CHR ''_'' rest) 3) (\<lambda>page.
       Inr (Some (ArtistSongs (hd (split_on CHR ''_'' rest)) page)))"
proof -
  obtain f fs where s: "split_on CHR ''_'' rest = f # fs"
    using split_on_not_Nil [of "CHR ''_''" rest] by (cases "split_on CHR ''_'' rest") auto
  show ?thesis
    by (simp add: parse_callback_data_def startswith_def Let_def s py_index_def bind_exn_def)
qed

lemma parse_albumdetail:
  "parse_callback_data (''albumdetail_'' @ rest) =
     bind_exn (page_field (''albumdetail'' # split_on CHR ''_'' rest) 2) (\<lambda>page.
       Inr (Some (DetailPage ''album'' (hd (split_on CHR ''_'' rest)) page)))"
proof -
  obtain f fs where s: "split_on CHR ''_'' rest = f # fs"
    using split_on_not_Nil [of "CHR ''_''" rest] by (cases "split_on CHR ''_'' rest") auto
  show ?thesis
    by (simp add: parse_callback_data_def startswith_def Let_def s py_index_def bind_exn_def)
qed

lemma parse_playlistdetail:
  "parse_callback_data (''playlistdetail_'' @ rest) =
     bind_exn (page_field (''playlistdetail'' # split_on CHR ''_'' rest) 2) (\<lambda>page.
       Inr (Some (DetailPage ''playlist'' (hd (split_on CHR ''_'' rest)) page)))"
proof -
  obtain f fs where s: "split_on CHR ''_'' rest = f # fs"
    using split_on_not_Nil [of "CHR ''_''" rest] by (cases "split_on CHR ''_'' rest") auto
  show ?thesis
    by (simp add: parse_callback_data_def startswith_def Let_def s py_index_def bind_exn_def)
qed

lemma split_two: "sep \<notin> set t \<Longrightarrow> sep \<notin> set p \<Longrightarrow> split_on sep (t @ sep # p) = [t, p]"
  by (simp add: split_on_append split_on_no_sep)

lemma split_three:
  "sep \<notin> set t \<Longrightarrow> sep \<notin> set p \<Longrightarrow>
     split_on sep (t @ sep # p @ sep # q) = t # p # split_on sep q"
  by (simp add: split_on_append)









section \<open>Round trip of the tokens\<close>

lemma of_char_digit_char: "d < 10 \<Longrightarrow> (of_char (digit_char d) :: nat) = 48 + d"
  by (simp add: digit_char_def)

lemma digit_char_is_digit: "d < 10 \<Longrightarrow> is_digit (digit_char d)"
  by (simp add: is_digit_def of_char_digit_char)

lemma digit_val_digit_char: "d < 10 \<Longrightarrow> digit_val (digit_char d) = d"
  by (simp add: digit_val_def of_char_digit_char)

lemma is_digit_not_special:
  "is_digit c \<Longrightarrow> \<not> int_space c \<and> c \<noteq> CHR ''_'' \<and> c \<noteq> CHR ''-'' \<and> c \<noteq> CHR ''+''"
  by (auto simp: is_digit_def int_space_def)

lemma str_nat_digits: "list_all is_digit (str_nat n)"
proof (induction n rule: str_nat.induct)
  case (1 n)
  show ?case
  proof (cases "n < 10")
    case True
    then show ?thesis by (subst str_nat.simps) (simp add: digit_char_is_digit)
  next
    case False
    with 1 show ?thesis by (subst str_nat.simps) (simp add: digit_char_is_digit)
  qed
qed

lemma str_nat_not_Nil: "str_nat n \<noteq> []"
  by (subst str_nat.simps) simp

lemma nat_of_digits_snoc: "nat_of_digits (ds @ [c]) = 10 * nat_of_digits ds + digit_val c"
  by (simp add: nat_of_digits_def)

lemma nat_of_digits_str_nat: "nat_of_digits (str_nat n) = n"
proof (induction n rule: str_nat.induct)
  case (1 n)
  show ?case
  proof (cases "n < 10")
    case True
    then show ?thesis
      by (subst str_nat.simps) (simp add: nat_of_digits_def digit_val_digit_char)
  next
    case False
    with 1 have "nat_of_digits (str_nat (n div 10)) = n div 10" by simp
    with False show ?thesis
      by (subst str_nat.simps) (simp add: nat_of_digits_snoc digit_val_digit_char)
  qed
qed

lemma str_nat_sep_free: "CHR ''_'' \<notin> set (str_nat n)"
  using str_nat_digits [of n] by (auto simp: list_all_iff dest: is_digit_not_special)

lemma parse_digits_str_nat: "parse_digits (str_nat n) = Inr n"
  by (simp add: parse_digits_def split_on_no_sep [OF str_nat_sep_free] str_nat_digits
        str_nat_not_Nil nat_of_digits_str_nat)

lemma trim_id:
  assumes "s \<noteq> []" "\<not> P (hd s)" "\<not> P (last s)"
  shows "rev (dropWhile P (rev (dropWhile P s))) = s"
proof -
  from assms have 1: "dropWhile P s = s" by (cases s) auto
  from assms have "rev s \<noteq> []" "\<not> P (hd (rev s))" by (auto simp: hd_rev)
  then have 2: "dropWhile P (rev s) = rev s" by (cases "rev s") auto
  show ?thesis by (simp add: 1 2)
qed

lemma str_nat_ends: "is_digit (hd (str_nat n))" "is_digit (last (str_nat n))"
proof -
  have a: "list_all is_digit (str_nat n)" by (rule str_nat_digits)
  have b: "str_nat n \<noteq> []" by (rule str_nat_not_Nil)
  from a b show "is_digit (hd (str_nat n))" by (cases "str_nat n") auto
  from a b show "is_digit (last (str_nat n))"
    by (metis last_in_set list_all_iff)
qed

lemma py_int_str_int: "py_int (str_int p) = Inr p"
proof (cases "p < 0")
  case True
  let ?ds = "str_nat (nat (- p))"
  have "rev (dropWhile int_space (rev (dropWhile int_space (CHR ''-'' # ?ds)))) = CHR ''-'' # ?ds"
    using str_nat_ends(2) [of "nat (- p)"] str_nat_not_Nil [of "nat (- p)"]
    by (intro trim_id) (auto simp: int_space_def dest: is_digit_not_special)
  with True show ?thesis
    by (simp add: py_int_def str_int_def parse_digits_str_nat bind_exn_def)
next
  case False
  let ?ds = "str_nat (nat p)"
  obtain c cs where ds: "?ds = c # cs"
    using str_nat_not_Nil [of "nat p"] by (cases ?ds) auto
  have s: "rev (dropWhile int_space (rev (dropWhile int_space ?ds))) = ?ds"
    using str_nat_ends [of "nat p"] str_nat_not_Nil [of "nat p"]
    by (intro trim_id) (auto dest: is_digit_not_special)
  have c: "c \<noteq> CHR ''-''" "c \<noteq> CHR ''+''"
    using str_nat_ends(1) [of "nat p"] ds by (auto dest: is_digit_not_special)
  have "parse_digits (c # cs) = Inr (nat p)"
    using parse_digits_str_nat [of "nat p"] ds by simp
  moreover have "rev (dropWhile int_space (rev (dropWhile int_space (c # cs)))) = c # cs"
    using s ds by simp
  ultimately show ?thesis using False c
    by (simp add: py_int_def str_int_def ds bind_exn_def)
qed

lemma str_int_sep_free: "CHR ''_'' \<notin> set (str_int p)"
  by (simp add: str_int_def str_nat_sep_free)

lemma join_split_on: "join [sep] (split_on sep s) = s"
proof (induction s)
  case Nil
  show ?case by simp
next
  case (Cons c s)
  obtain f fs where sp: "split_on sep s = f # fs"
    using split_on_not_Nil [of sep s] by (cases "split_on sep s") auto
  show ?case
  proof (cases "c = sep")
    case True
    with Cons sp show ?thesis by simp
  next
    case False
    with Cons sp show ?thesis by (cases fs) auto
  qed
qed


lemma parse_split_once_tokens:
  "parse_callback_data (''song_'' @ i) = Inr (Some (OpenSong i))"
  "parse_callback_data (''album_'' @ i) = Inr (Some (OpenAlbum i))"
  "parse_callback_data (''playlist_'' @ i) = Inr (Some (OpenPlaylist i))"
  "parse_callback_data (''dl_'' @ i) = Inr (Some (Download i))"
  "parse_callback_data (''sim_'' @ i) = Inr (Some (Similar i))"
  by (simp_all add: parse_callback_data_def startswith_def split_once_def py_index_def bind_exn_def)

lemma parse_artist_token:
  "\<not> prefix ''songs'' i \<Longrightarrow> \<not> prefix ''albums'' i \<Longrightarrow>
     parse_callback_data (''artist_'' @ i) = Inr (Some (OpenArtist i))"
  by (simp add: parse_callback_data_def startswith_def split_once_def py_index_def bind_exn_def)

lemma parse_quality_token:
  "sep_free q \<Longrightarrow> parse_callback_data (''quality_'' @ q) = Inr (Some (SetQuality q))"
  by (simp add: parse_callback_data_def startswith_def split_on_no_sep sep_free_def
        py_index_def bind_exn_def)

lemma parse_fixed_tokens:
  "parse_callback_data ''main_menu'' = Inr (Some MainMenu)"
  "parse_callback_data ''help'' = Inr (Some Help)"
  "parse_callback_data ''settings'' = Inr (Some Settings)"
  "parse_callback_data ''my_stats'' = Inr (Some MyStats)"
  "parse_callback_data ''history'' = Inr (Some History)"
  "parse_callback_data ''clear_history'' = Inr (Some ClearHistory)"
  "parse_callback_data ''search_songs'' = Inr (Some (SearchPrompt ''song''))"
  "parse_callback_data ''search_albums'' = Inr (Some (SearchPrompt ''album''))"
  "parse_callback_data ''search_playlists'' = Inr (Some (SearchPrompt ''playlist''))"
  "parse_callback_data ''search_artists'' = Inr (Some (SearchPrompt ''artist''))"
  "parse_callback_data ''admin_panel'' = Inr (Some AdminPanel)"
  "parse_callback_data ''admin_broadcast'' = Inr (Some AdminBroadcast)"
  "parse_callback_data ''admin_stats'' = Inr (Some AdminStats)"
  "parse_callback_data ''back_search'' = Inr (Some BackSearch)"
  "parse_callback_data ''noop'' = Inr (Some Noop)"
  by (simp_all add: parse_callback_data_def startswith_def)

lemma parse_page_tokens:
  assumes "sep_free a"
  shows "parse_callback_data (''artist_songs_'' @ a @ ''_'' @ str_int p) = Inr (Some (ArtistSongs a p))"
    and "parse_callback_data (''artist_albums_'' @ a @ ''_'' @ str_int p) = Inr (Some (ArtistAlbums a p))"
    and "parse_callback_data (''albumdetail_'' @ a @ ''_'' @ str_int p) = Inr (Some (DetailPage ''album'' a p))"
    and "parse_callback_data (''playlistdetail_'' @ a @ ''_'' @ str_int p)
           = Inr (Some (DetailPage ''playlist'' a p))"
  unfolding parse_artist_songs parse_artist_albums parse_albumdetail parse_playlistdetail
  using assms str_int_sep_free [of p]
  by (simp_all add: split_two sep_free_def page_field_def py_index_def bind_exn_def py_int_str_int)

lemma parse_dlall_roundtrip:
  assumes "sep_free t" "sep_free i"
  shows "parse_callback_data (''dlall_'' @ t @ ''_'' @ i) = Inr (Some (DownloadAll t i))"
  unfolding parse_dlall_token using assms
  by (simp add: split_two sep_free_def py_index_def bind_exn_def)

lemma parse_list_roundtrip:
  assumes "sep_free t"
  shows "parse_callback_data (''list_'' @ t @ ''_'' @ str_int p @ ''_'' @ q)
           = Inr (Some (ListPage t p q))"
proof -
  obtain f fs where s: "split_on CHR ''_'' q = f # fs"
    using split_on_not_Nil [of "CHR ''_''" q] by (cases "split_on CHR ''_'' q") auto
  have j: "join ''_'' (f # fs) = q"
    using join_split_on [of "CHR ''_''" q] s by simp
  show ?thesis
    unfolding parse_list_token using assms str_int_sep_free [of p]
    by (simp add: split_three sep_free_def s py_index_def bind_exn_def py_int_str_int
          py_slice_from_def clamp_index_def j)
qed

text \<open>
  C8, as stated, fails: an artist id without any separator that begins with \<^verbatim>\<open>songs\<close>
  is written as \<^verbatim>\<open>artist_songs1\<close>, which the guard of the artist branch excludes and
  no other branch matches; the token reads back as no action at all.
\<close>

theorem artist_id_with_reserved_prefix_is_not_read_back:
  "CHR ''_'' \<notin> set ''songs1'' \<and>
   callback_data_of (OpenArtist ''songs1'') = ''artist_songs1'' \<and>
   parse_callback_data (callback_data_of (OpenArtist ''songs1'')) = Inr None"
  by code_simp

text \<open>
  C8, amended. For every action that is \<open>representable\<close> (no separator in the ids of the
  artist-songs, artist-albums, download-all and detail tokens, in the item type and in the
  quality key; an artist id that does not begin with \<^verbatim>\<open>songs\<close> or \<^verbatim>\<open>albums\<close>; the
  kinds that the keyboards write), the chain of the handler reads the written token back as
  the same action with the same fields.
\<close>

theorem token_round_trip:
  assumes "representable a"
  shows "parse_callback_data (callback_data_of a) = Inr (Some a)"
proof (cases a)
  case (SearchPrompt kind)
  with assms show ?thesis by (auto simp: parse_fixed_tokens)
next
  case (OpenArtist i)
  with assms show ?thesis using parse_artist_token [of i] by simp
next
  case (SetQuality q)
  with assms show ?thesis using parse_quality_token [of q] by simp
next
  case (ArtistSongs i p)
  with assms show ?thesis using parse_page_tokens(1) [of i p] by simp
next
  case (ArtistAlbums i p)
  with assms show ?thesis using parse_page_tokens(2) [of i p] by simp
next
  case (DownloadAll t i)
  with assms show ?thesis using parse_dlall_roundtrip [of t i] by simp
next
  case (ListPage t p q)
  with assms show ?thesis using parse_list_roundtrip [of t p q] by simp
next
  case (DetailPage t i p)
  with assms show ?thesis
    using parse_page_tokens(3) [of i p] parse_page_tokens(4) [of i p] by auto
next
  case (OpenSong i)
  then show ?thesis using parse_split_once_tokens(1) [of i] by simp
next
  case (OpenAlbum i)
  then show ?thesis using parse_split_once_tokens(2) [of i] by simp
next
  case (OpenPlaylist i)
  then show ?thesis using parse_split_once_tokens(3) [of i] by simp
next
  case (Download i)
  then show ?thesis using parse_split_once_tokens(4) [of i] by simp
next
  case (Similar i)
  then show ?thesis using parse_split_once_tokens(5) [of i] by simp
qed (simp_all add: parse_fixed_tokens)

theorem token_round_trip_witness:
  "representable (ListPage ''song'' 2 ''a_b'') \<and>
   callback_data_of (ListPage ''song'' 2 ''a_b'') = ''list_song_2_a_b'' \<and>
   parse_callback_data ''list_song_2_a_b'' = Inr (Some (ListPage ''song'' 2 ''a_b''))"
proof -
  have r: "representable (ListPage ''song'' 2 ''a_b'')"
    by (simp add: sep_free_def)
  have e: "callback_data_of (ListPage ''song'' 2 ''a_b'') = ''list_song_2_a_b''"
    by code_simp
  from token_round_trip [OF r] e r show ?thesis by simp
qed

end
